theory Spec2Isabelle
  imports Complex_Main "HOL-Library.AList"
begin

section \<open>The liquidity-wall strategy of exchangebots (strategies/liquidity\_wall.py)\<close>

text \<open>
  The strategy class \<^verbatim>\<open>LiquiditySellBuyWalls\<close> is embedded function by function.
  Python floats are taken as real numbers (no rounding); Python 3's \<^verbatim>\<open>/\<close> is true
  division and raises on a zero divisor. Dictionaries are association lists in insertion
  order, read with \<open>map_of\<close> and written with \<open>AList.update\<close>; a missing key is a
  \<open>KeyError\<close>. A setting is a field of type \<open>option\<close>: \<open>None\<close> is "key not in
  settings". Calls to the exchange (\<^verbatim>\<open>self.dex\<close>) are recorded in a log of commands,
  which every function takes and returns next to its result or its exception.
\<close>

subsection \<open>Data\<close>

datatype command =
    Sell string real real
  | Buy string real real
  | Cancel string
  | Borrow real string real
  | AdjustDebt real string real

datatype error =
    MissingSettingsException string
  | KeyError string
  | ZeroDivisionError
  | ValueError string
  | AssertionError string
  | UnboundLocalError string
  | Exception string
  | RecursionError
  | DexError command

record order =
  orderNumber :: string
  order_type :: string
  rate :: real
  order_total :: real

record debt_position =
  debt :: real
  collateral :: real
  collateral_asset :: string

record ticker_entry =
  settlement_price :: "real option"

record asset =
  asset_id :: string
  bitasset_data_id :: "string option"

text \<open>\<^verbatim>\<open>target_price\<close> is a float, an int or a string; the code dispatches on the type.\<close>

datatype target = TFloat real | TInt int | TStr string

record settings =
  markets :: "string list option"
  target_price :: "target option"
  target_price_offset_percentage :: "real option"
  spread_percentage :: "real option"
  allowed_spread_percentage :: "real option"
  volume_percentage :: "real option"
  symmetric_sides :: "bool option"
  expiration :: "int option"
  skip_blocks :: "int option"
  ratio :: "real option"
  borrow_percentages :: "(string \<times> real) list option"
  minimum_amounts :: "(string \<times> real) list option"
  minimum_change_percentage :: "real option"
  calculate_bts_total :: "string option"

text \<open>
  The exchange. Its queries answer from the commands issued so far; \<open>fails\<close> tells
  whether a command raises at the exchange.
\<close>

record dex =
  market_separator :: string
  returnTicker :: "command list \<Rightarrow> (string \<times> ticker_entry) list"
  returnOpenOrders :: "command list \<Rightarrow> (string \<times> order list) list"
  list_debt_positions :: "command list \<Rightarrow> (string \<times> debt_position) list"
  returnBalances :: "command list \<Rightarrow> (string \<times> real) list"
  get_asset :: "string \<Rightarrow> asset"
  short_backing_asset :: "string \<Rightarrow> string"
  fails :: "command list \<Rightarrow> command \<Rightarrow> bool"

text \<open>
  The strategy object: \<^verbatim>\<open>self.settings\<close>, \<^verbatim>\<open>self.dex\<close>,
  \<^verbatim>\<open>self.config.market_separator\<close>, the four snapshots of \<^verbatim>\<open>update_data\<close>
  and \<^verbatim>\<open>block_counter\<close>. \<open>recursion_limit\<close> is the depth left to the interpreter
  for the self-calls of \<^verbatim>\<open>place_orders('all')\<close> and \<^verbatim>\<open>cancel_orders('all')\<close>.
\<close>

record bot =
  settings :: settings
  dex :: dex
  config_market_separator :: string
  ticker :: "(string \<times> ticker_entry) list"
  open_orders :: "(string \<times> order list) list"
  debt_positions :: "(string \<times> debt_position) list"
  balances :: "(string \<times> real) list"
  block_counter :: int
  recursion_limit :: nat

type_synonym 'a action = "command list \<Rightarrow> (error + 'a) \<times> command list"

subsection \<open>Python primitives\<close>

text \<open>\<^verbatim>\<open>s.split(sep)\<close>: cut at every occurrence of \<open>sep\<close>, left to right.\<close>

function split_acc :: "string \<Rightarrow> string \<Rightarrow> string \<Rightarrow> string list" where
  "split_acc sep acc [] = [rev acc]"
| "split_acc sep acc (c # cs) =
     (if sep \<noteq> [] \<and> take (length sep) (c # cs) = sep
      then rev acc # split_acc sep [] (drop (length sep) (c # cs))
      else split_acc sep (c # acc) cs)"
  by pat_completeness auto
termination
  by (relation "measure (\<lambda>(sep, acc, s). length s)") auto

definition str_split :: "string \<Rightarrow> string \<Rightarrow> error + string list" where
  "str_split s sep =
     (if sep = [] then Inl (ValueError ''empty separator'') else Inr (split_acc sep [] s))"

text \<open>\<^verbatim>\<open>quote, base = market.split(separator)\<close>: the unpacking wants two parts.\<close>

definition split_market :: "string \<Rightarrow> string \<Rightarrow> error + (string \<times> string)" where
  "split_market market sep =
     (case str_split market sep of
        Inl e \<Rightarrow> Inl e
      | Inr [quote, base] \<Rightarrow> Inr (quote, base)
      | Inr _ \<Rightarrow> Inl (ValueError ''unpack''))"

text \<open>\<^verbatim>\<open>d[k]\<close> on a dictionary.\<close>

definition getitem :: "(string \<times> 'a) list \<Rightarrow> string \<Rightarrow> error + 'a" where
  "getitem d k = (case map_of d k of None \<Rightarrow> Inl (KeyError k) | Some v \<Rightarrow> Inr v)"

text \<open>\<^verbatim>\<open>self.settings[k]\<close> for the setting read by \<open>field\<close>.\<close>

definition setting :: "(settings \<Rightarrow> 'a option) \<Rightarrow> string \<Rightarrow> bot \<Rightarrow> error + 'a" where
  "setting field k self =
     (case field (settings self) of None \<Rightarrow> Inl (KeyError k) | Some v \<Rightarrow> Inr v)"

text \<open>A call \<^verbatim>\<open>self.dex.f(...)\<close> that acts on the exchange: logged, and it may raise.\<close>

definition dex_call :: "bot \<Rightarrow> command \<Rightarrow> unit action" where
  "dex_call self c issued =
     (if fails (dex self) issued c then (Inl (DexError c), issued @ [c])
      else (Inr (), issued @ [c]))"

subsection \<open>Debt allocation: get\_total\_bts, get\_debt\_amounts\<close>

text \<open>
  The values \<^verbatim>\<open>get_total_bts\<close> receives as \<^verbatim>\<open>calculation_type\<close>: the default
  \<^verbatim>\<open>None\<close>, the dictionary of debt positions (what \<^verbatim>\<open>get_debt_amounts\<close> passes)
  or a string. \<open>truthy\<close> is Python's truth value of each.
\<close>

datatype calc_arg = CNone | CDict "(string \<times> debt_position) list" | CStr string

fun truthy :: "calc_arg \<Rightarrow> bool" where
  "truthy CNone = False"
| "truthy (CDict d) = (d \<noteq> [])"
| "truthy (CStr s) = (s \<noteq> [])"

definition get_total_bts :: "bot \<Rightarrow> calc_arg \<Rightarrow> error + real" where
  "get_total_bts self calculation_type =
     (case (if \<not> truthy calculation_type
            then (case setting calculate_bts_total ''calculate_bts_total'' self of
                    Inl e \<Rightarrow> Inl e | Inr s \<Rightarrow> Inr (CStr s))
            else Inr calculation_type) of
        Inl e \<Rightarrow> Inl e
      | Inr calculation_type' \<Rightarrow>
          (let total_collateral =
                 sum_list (map (\<lambda>(key, v). collateral v)
                   (filter (\<lambda>(key, v). collateral_asset v = ''BTS'') (debt_positions self)));
               order_list = concat (map snd (open_orders self));
               bts_on_orderbook =
                 sum_list (map order_total (filter (\<lambda>ord. order_type ord = ''buy'') order_list))
           in case getitem (balances self) ''BTS'' of
                Inl e \<Rightarrow> Inl e
              | Inr b \<Rightarrow>
                  (let total_bts = total_collateral + b + bts_on_orderbook
                   in Inr (if calculation_type' = CStr ''worth'' then total_bts else total_bts))))"

text \<open>The loop of \<^verbatim>\<open>get_debt_amounts\<close> over the markets, filling \<^verbatim>\<open>quote_amounts\<close>.\<close>

fun debt_amounts_loop ::
  "bot \<Rightarrow> real \<Rightarrow> (string \<times> real) list \<Rightarrow> string list \<Rightarrow> error + (string \<times> real) list" where
  "debt_amounts_loop self total_bts quote_amounts [] = Inr quote_amounts"
| "debt_amounts_loop self total_bts quote_amounts (m # ms) =
     (case split_market m (config_market_separator self) of
        Inl e \<Rightarrow> Inl e
      | Inr (quote, base) \<Rightarrow>
     (case setting borrow_percentages ''borrow_percentages'' self of
        Inl e \<Rightarrow> Inl e
      | Inr bp \<Rightarrow>
     (case getitem bp quote of
        Inl e \<Rightarrow> Inl e
      | Inr p \<Rightarrow>
     (case getitem (ticker self) m of
        Inl e \<Rightarrow> Inl e
      | Inr t \<Rightarrow>
     (case settlement_price t of
        None \<Rightarrow> Inl (KeyError ''settlement_price'')
      | Some sp \<Rightarrow>
          if sp = 0 then Inl ZeroDivisionError
          else debt_amounts_loop self total_bts
                 (AList.update quote ((total_bts * (p / 100)) / sp) quote_amounts) ms)))))"

definition get_debt_amounts :: "bot \<Rightarrow> error + (string \<times> real) list" where
  "get_debt_amounts self =
     (case get_total_bts self (CDict (debt_positions self)) of
        Inl e \<Rightarrow> Inl e
      | Inr total_bts \<Rightarrow>
     (case setting markets ''markets'' self of
        Inl e \<Rightarrow> Inl e
      | Inr ms \<Rightarrow> debt_amounts_loop self total_bts [] ms))"

subsection \<open>Sequencing\<close>

text \<open>A \<^verbatim>\<open>for\<close> loop whose body acts on the exchange: the first exception ends it.\<close>

fun for_each :: "('a \<Rightarrow> unit action) \<Rightarrow> 'a list \<Rightarrow> unit action" where
  "for_each body [] issued = (Inr (), issued)"
| "for_each body (x # xs) issued =
     (case body x issued of
        (Inl e, issued') \<Rightarrow> (Inl e, issued')
      | (Inr u, issued') \<Rightarrow> for_each body xs issued')"

subsection \<open>Placing orders: place\_orders\<close>

text \<open>
  Modelled from the spec: \<^verbatim>\<open>BaseStrategy.sell\<close> and \<^verbatim>\<open>BaseStrategy.buy\<close> are
  not among the source files. By the interface \<^verbatim>\<open>placeSell(market, price, amount)\<close>,
  \<^verbatim>\<open>placeBuy(market, price, amount)\<close> each submits one order to the exchange and
  may fail there.
\<close>

definition sell :: "bot \<Rightarrow> string \<Rightarrow> real \<Rightarrow> real \<Rightarrow> unit action" where
  "sell self market price amount = dex_call self (Sell market price amount)"

definition buy :: "bot \<Rightarrow> string \<Rightarrow> real \<Rightarrow> real \<Rightarrow> unit action" where
  "buy self market price amount = dex_call self (Buy market price amount)"

text \<open>Lines 169-172: the assets of every configured market, base then quote.\<close>

fun asset_ids_loop :: "string \<Rightarrow> string list \<Rightarrow> string list \<Rightarrow> error + string list" where
  "asset_ids_loop sep asset_ids [] = Inr asset_ids"
| "asset_ids_loop sep asset_ids (single_market # ms) =
     (case split_market single_market sep of
        Inl e \<Rightarrow> Inl e
      | Inr (quote, base) \<Rightarrow> asset_ids_loop sep (asset_ids @ [base, quote]) ms)"

text \<open>
  Lines 174-176: the share of each asset's balance given to one market. The loop runs
  over \<^verbatim>\<open>list(set(asset_ids))\<close>, here \<open>remdups asset_ids\<close>; the dictionary is only
  read by key afterwards, so the order of the set does not show.
\<close>

fun amounts_loop ::
  "bot \<Rightarrow> (string \<times> real) list \<Rightarrow> string list \<Rightarrow> (string \<times> real) list \<Rightarrow> string list
   \<Rightarrow> error + (string \<times> real) list" where
  "amounts_loop self bals asset_ids amounts [] = Inr amounts"
| "amounts_loop self bals asset_ids amounts (a # rest) =
     (case map_of bals a of
        None \<Rightarrow> amounts_loop self bals asset_ids amounts rest
      | Some b \<Rightarrow>
          (case setting volume_percentage ''volume_percentage'' self of
             Inl e \<Rightarrow> Inl e
           | Inr vp \<Rightarrow>
               amounts_loop self bals asset_ids
                 (AList.update a (b * vp / 100 / real (count_list asset_ids a)) amounts) rest))"

text \<open>
  Python's floats are binary64 numbers, and an arithmetic operation on them returns the
  exact result rounded to the nearest such number, a tie going to the even significand.
  \<open>fl\<close> is that rounding, to 53 significant bits: \<open>pow2 k\<close> is \<open>2\<close> to the power
  \<open>k\<close>, and \<open>round_even\<close> rounds to the nearest integer. The range of the exponent is
  left unbounded: overflow to \<^verbatim>\<open>inf\<close> and the subnormal numbers are not modelled.
  The rounding is written out in the price computation of lines 177-189, where the order
  of the three prices depends on it; the other operations are taken exactly.
\<close>

definition pow2 :: "int \<Rightarrow> real" where
  "pow2 k = (if 0 \<le> k then 2 ^ nat k else 1 / 2 ^ nat (- k))"

definition round_even :: "real \<Rightarrow> int" where
  "round_even m =
     (let f = \<lfloor>m\<rfloor>; d = m - of_int f
      in if d < 1 / 2 then f else if 1 / 2 < d then f + 1 else if even f then f else f + 1)"

definition fl :: "real \<Rightarrow> real" where
  "fl x =
     (if x = 0 then 0
      else let u = pow2 (\<lfloor>log 2 \<bar>x\<bar>\<rfloor> - 52)
           in sgn x * real_of_int (round_even (\<bar>x\<bar> / u)) * u)"

text \<open>
  Lines 177-186: \<^verbatim>\<open>base_price\<close>, which stays unbound (\<open>None\<close>) when
  \<^verbatim>\<open>target_price\<close> is a string other than the three names of the feed. The source
  compares the strings with \<^verbatim>\<open>is\<close>; equal literals are one object in CPython, and
  the model takes \<^verbatim>\<open>is\<close> as equality.
\<close>

definition base_price_of :: "bot \<Rightarrow> string \<Rightarrow> target \<Rightarrow> error + real option" where
  "base_price_of self market tp =
     (case tp of
        TFloat x \<Rightarrow>
          (case setting target_price_offset_percentage ''target_price_offset_percentage'' self of
             Inl e \<Rightarrow> Inl e
           | Inr off \<Rightarrow> Inr (Some (fl (x * fl (1 + fl (off / 100))))))
      | TInt i \<Rightarrow>
          (case setting target_price_offset_percentage ''target_price_offset_percentage'' self of
             Inl e \<Rightarrow> Inl e
           | Inr off \<Rightarrow> Inr (Some (fl (fl (real_of_int i) * fl (1 + fl (off / 100))))))
      | TStr s \<Rightarrow>
          if s = ''settlement_price'' \<or> s = ''feed'' \<or> s = ''price_feed''
          then (case getitem (ticker self) market of
                  Inl e \<Rightarrow> Inl e
                | Inr t \<Rightarrow>
                    (case settlement_price t of
                       Some sp \<Rightarrow>
                         (case setting target_price_offset_percentage
                                 ''target_price_offset_percentage'' self of
                            Inl e \<Rightarrow> Inl e
                          | Inr off \<Rightarrow> Inr (Some (fl (sp * fl (1 + fl (off / 100))))))
                     | None \<Rightarrow>
                         Inl (Exception (''Pair '' @ market @ '' does not have a settlement price!''))))
          else Inr None)"

text \<open>
  Lines 165-189: from the balances just fetched to \<^verbatim>\<open>amounts\<close>,
  \<^verbatim>\<open>buy_price\<close> and \<^verbatim>\<open>sell_price\<close>.
\<close>

definition order_prices ::
  "bot \<Rightarrow> string \<Rightarrow> (string \<times> real) list \<Rightarrow> error + ((string \<times> real) list \<times> real \<times> real)" where
  "order_prices self market bals =
     (case setting target_price ''target_price'' self of
        Inl e \<Rightarrow> Inl e
      | Inr tp \<Rightarrow>
     (case setting markets ''markets'' self of
        Inl e \<Rightarrow> Inl e
      | Inr ms \<Rightarrow>
     (case asset_ids_loop (config_market_separator self) [] ms of
        Inl e \<Rightarrow> Inl e
      | Inr asset_ids \<Rightarrow>
     (case amounts_loop self bals asset_ids [] (remdups asset_ids) of
        Inl e \<Rightarrow> Inl e
      | Inr amounts \<Rightarrow>
     (case base_price_of self market tp of
        Inl e \<Rightarrow> Inl e
      | Inr None \<Rightarrow> Inl (UnboundLocalError ''base_price'')
      | Inr (Some base_price) \<Rightarrow>
     (case setting spread_percentage ''spread_percentage'' self of
        Inl e \<Rightarrow> Inl e
      | Inr spread \<Rightarrow>
          Inr (amounts, fl (base_price * fl (1 - fl (spread / 200))),
               fl (base_price * fl (1 + fl (spread / 200))))))))))"

text \<open>The minimum-size gate of lines 195, 199, 204 and 208, always on the quote asset.\<close>

definition minimum_amount :: "bot \<Rightarrow> string \<Rightarrow> error + real" where
  "minimum_amount self quote =
     (case setting minimum_amounts ''minimum_amounts'' self of
        Inl e \<Rightarrow> Inl e
      | Inr ma \<Rightarrow> getitem ma quote)"

text \<open>Lines 192-200: the sell side.\<close>

definition sell_side ::
  "bot \<Rightarrow> string \<Rightarrow> bool \<Rightarrow> bool \<Rightarrow> (string \<times> real) list \<Rightarrow> string \<Rightarrow> string \<Rightarrow> real \<Rightarrow> real
   \<Rightarrow> unit action" where
  "sell_side self market only_sell only_buy amounts quote base buy_price sell_price issued =
     (case map_of amounts quote of
        None \<Rightarrow> (Inr (), issued)
      | Some aq \<Rightarrow>
          if only_buy then (Inr (), issued)
          else
            (case (if symmetric_sides (settings self) = Some True \<and> \<not> only_sell
                   then (case map_of amounts base of
                           Some ab \<Rightarrow>
                             if buy_price = 0 then Inl ZeroDivisionError
                             else Inr (min aq (ab / buy_price))
                         | None \<Rightarrow> Inr aq)
                   else Inr aq) of
               Inl e \<Rightarrow> (Inl e, issued)
             | Inr amount \<Rightarrow>
                 (case minimum_amount self quote of
                    Inl e \<Rightarrow> (Inl e, issued)
                  | Inr mn \<Rightarrow>
                      if amount \<ge> mn then sell self market sell_price amount issued
                      else (Inr (), issued))))"

text \<open>Lines 201-209: the buy side.\<close>

definition buy_side ::
  "bot \<Rightarrow> string \<Rightarrow> bool \<Rightarrow> bool \<Rightarrow> (string \<times> real) list \<Rightarrow> string \<Rightarrow> string \<Rightarrow> real
   \<Rightarrow> unit action" where
  "buy_side self market only_sell only_buy amounts quote base buy_price issued =
     (case map_of amounts base of
        None \<Rightarrow> (Inr (), issued)
      | Some ab \<Rightarrow>
          if only_sell then (Inr (), issued)
          else
            (case (if symmetric_sides (settings self) = Some True \<and> \<not> only_buy
                   then (case map_of amounts quote of
                           Some aq \<Rightarrow>
                             if buy_price = 0 then Inl ZeroDivisionError
                             else Inr (min aq (ab / buy_price))
                         | None \<Rightarrow>
                             if buy_price = 0 then Inl ZeroDivisionError
                             else Inr (ab / buy_price))
                   else if buy_price = 0 then Inl ZeroDivisionError
                        else Inr (ab / buy_price)) of
               Inl e \<Rightarrow> (Inl e, issued)
             | Inr amount \<Rightarrow>
                 (case minimum_amount self quote of
                    Inl e \<Rightarrow> (Inl e, issued)
                  | Inr mn \<Rightarrow>
                      if amount \<ge> mn then buy self market buy_price amount issued
                      else (Inr (), issued))))"

text \<open>The branch \<^verbatim>\<open>market != "all"\<close> of \<^verbatim>\<open>place_orders\<close> (lines 165-209).\<close>

definition place_orders_market :: "bot \<Rightarrow> string \<Rightarrow> bool \<Rightarrow> bool \<Rightarrow> unit action" where
  "place_orders_market self market only_sell only_buy issued =
     (case order_prices self market (returnBalances (dex self) issued) of
        Inl e \<Rightarrow> (Inl e, issued)
      | Inr (amounts, buy_price, sell_price) \<Rightarrow>
     (case split_market market (config_market_separator self) of
        Inl e \<Rightarrow> (Inl e, issued)
      | Inr (quote, base) \<Rightarrow>
     (case sell_side self market only_sell only_buy amounts quote base buy_price sell_price
             issued of
        (Inl e, issued') \<Rightarrow> (Inl e, issued')
      | (Inr u, issued') \<Rightarrow>
          buy_side self market only_sell only_buy amounts quote base buy_price issued')))"

text \<open>
  The branch \<^verbatim>\<open>market == "all"\<close> (lines 211-212) calls \<^verbatim>\<open>place_orders\<close> again for
  every configured market; a market named \<^verbatim>\<open>all\<close> sends it back here, one level
  deeper, until the interpreter's depth is used up.
\<close>

fun place_orders_all :: "nat \<Rightarrow> bot \<Rightarrow> unit action" where
  "place_orders_all 0 self issued = (Inl RecursionError, issued)"
| "place_orders_all (Suc depth) self issued =
     (case setting markets ''markets'' self of
        Inl e \<Rightarrow> (Inl e, issued)
      | Inr ms \<Rightarrow>
          for_each
            (\<lambda>market issued'.
                if market \<noteq> ''all'' then place_orders_market self market False False issued'
                else place_orders_all depth self issued')
            ms issued)"

definition place_orders :: "bot \<Rightarrow> string \<Rightarrow> bool \<Rightarrow> bool \<Rightarrow> unit action" where
  "place_orders self market only_sell only_buy issued =
     (if market \<noteq> ''all'' then place_orders_market self market only_sell only_buy issued
      else place_orders_all (recursion_limit self) self issued)"

subsection \<open>Cancelling orders: cancel\_orders\<close>

text \<open>
  Lines 220-226: every order of the market is cancelled in turn; what a cancel raises is
  caught and printed, and the loop goes on.
\<close>

fun cancel_loop :: "bot \<Rightarrow> order list \<Rightarrow> command list \<Rightarrow> command list" where
  "cancel_loop self [] issued = issued"
| "cancel_loop self (ord # rest) issued =
     cancel_loop self rest (snd (dex_call self (Cancel (orderNumber ord)) issued))"

definition cancel_orders_market :: "bot \<Rightarrow> string \<Rightarrow> unit action" where
  "cancel_orders_market self market issued =
     (case getitem (open_orders self) market of
        Inl e \<Rightarrow> (Inl e, issued)
      | Inr orders \<Rightarrow> (Inr (), cancel_loop self orders issued))"

fun cancel_orders_all :: "nat \<Rightarrow> bot \<Rightarrow> unit action" where
  "cancel_orders_all 0 self issued = (Inl RecursionError, issued)"
| "cancel_orders_all (Suc depth) self issued =
     (case setting markets ''markets'' self of
        Inl e \<Rightarrow> (Inl e, issued)
      | Inr ms \<Rightarrow>
          for_each
            (\<lambda>market issued'.
                if market \<noteq> ''all'' then cancel_orders_market self market issued'
                else cancel_orders_all depth self issued')
            ms issued)"

definition cancel_orders :: "bot \<Rightarrow> string \<Rightarrow> unit action" where
  "cancel_orders self market issued =
     (if market \<noteq> ''all'' then cancel_orders_market self market issued
      else cancel_orders_all (recursion_limit self) self issued)"

subsection \<open>Debt positions\<close>

definition borrow :: "bot \<Rightarrow> real \<Rightarrow> string \<Rightarrow> unit action" where
  "borrow self amount symbol issued =
     (case setting ratio ''ratio'' self of
        Inl e \<Rightarrow> (Inl e, issued)
      | Inr r \<Rightarrow> dex_call self (Borrow amount symbol r) issued)"

definition place_initial_debt_positions :: "bot \<Rightarrow> unit action" where
  "place_initial_debt_positions self issued =
     (case get_debt_amounts self of
        Inl e \<Rightarrow> (Inl e, issued)
      | Inr debt_amounts \<Rightarrow>
          for_each (\<lambda>(symbol, amount). borrow self amount symbol) debt_amounts issued)"

definition adjust_debt_amount :: "bot \<Rightarrow> real \<Rightarrow> string \<Rightarrow> unit action" where
  "adjust_debt_amount self delta_amount symbol issued =
     (case setting ratio ''ratio'' self of
        Inl e \<Rightarrow> (Inl e, issued)
      | Inr r \<Rightarrow> dex_call self (AdjustDebt delta_amount symbol r) issued)"

text \<open>Lines 244-248: one position of the loop of \<^verbatim>\<open>update_debt_positions\<close>.\<close>

definition adjust_position :: "bot \<Rightarrow> string \<times> real \<Rightarrow> unit action" where
  "adjust_position self item issued =
     (case item of (symbol, amount) \<Rightarrow>
     (case getitem (debt_positions self) symbol of
        Inl e \<Rightarrow> (Inl e, issued)
      | Inr position \<Rightarrow>
          if debt position = 0 then (Inl ZeroDivisionError, issued)
          else
            (let change_percentage = \<bar>amount / debt position - 1\<bar> * 100
             in case setting minimum_change_percentage ''minimum_change_percentage'' self of
                  Inl e \<Rightarrow> (Inl e, issued)
                | Inr minimum \<Rightarrow>
                    if change_percentage \<ge> minimum
                    then adjust_debt_amount self (amount - debt position) symbol issued
                    else (Inr (), issued))))"

definition update_debt_positions :: "bot \<Rightarrow> unit action" where
  "update_debt_positions self issued =
     (case get_debt_amounts self of
        Inl e \<Rightarrow> (Inl e, issued)
      | Inr debt_amounts \<Rightarrow>
          if length (debt_positions self) = 0 then place_initial_debt_positions self issued
          else if length (debt_positions self) = 3
          then for_each (adjust_position self) debt_amounts issued
          else (Inr (), issued))"

subsection \<open>The reconciler: check\_and\_replace\<close>

definition order_feed_spread :: "order \<Rightarrow> real \<Rightarrow> real" where
  "order_feed_spread ord feed = \<bar>(rate ord - feed) / feed * 100\<bar>"

text \<open>Lines 146-148: cancel the market's orders, place both sides, return \<^verbatim>\<open>True\<close>.\<close>

definition replace_orders :: "bot \<Rightarrow> string \<Rightarrow> bool action" where
  "replace_orders self market issued =
     (case cancel_orders self market issued of
        (Inl e, issued') \<Rightarrow> (Inl e, issued')
      | (Inr u, issued') \<Rightarrow>
     (case place_orders self market False False issued' of
        (Inl e, issued'') \<Rightarrow> (Inl e, issued'')
      | (Inr u, issued'') \<Rightarrow> (Inr True, issued'')))"

text \<open>
  Lines 142-148: the loop over the market's orders. \<open>Inr True\<close> is the
  \<^verbatim>\<open>return True\<close> inside the loop, \<open>Inr False\<close> is the loop running to its end.
\<close>

fun orders_loop :: "bot \<Rightarrow> string \<Rightarrow> order list \<Rightarrow> bool action" where
  "orders_loop self market [] issued = (Inr False, issued)"
| "orders_loop self market (ord # rest) issued =
     (case getitem (ticker self) market of
        Inl e \<Rightarrow> (Inl e, issued)
      | Inr t \<Rightarrow>
     (case settlement_price t of
        None \<Rightarrow> (Inl (KeyError ''settlement_price''), issued)
      | Some feed \<Rightarrow>
          if feed = 0 then (Inl ZeroDivisionError, issued)
          else
     (case setting allowed_spread_percentage ''allowed_spread_percentage'' self of
        Inl e \<Rightarrow> (Inl e, issued)
      | Inr allowed \<Rightarrow>
          if order_feed_spread ord feed \<le> allowed / 2 then replace_orders self market issued
          else
     (case setting spread_percentage ''spread_percentage'' self of
        Inl e \<Rightarrow> (Inl e, issued)
      | Inr spread \<Rightarrow>
          if order_feed_spread ord feed \<ge> (allowed + spread) / 2
          then replace_orders self market issued
          else orders_loop self market rest issued))))"

text \<open>Lines 149-155: a market whose quote asset has no debt position borrows.\<close>

definition borrow_missing :: "bot \<Rightarrow> string \<Rightarrow> bool action" where
  "borrow_missing self market issued =
     (case split_market market (market_separator (dex self)) of
        Inl e \<Rightarrow> (Inl e, issued)
      | Inr (symbol, base) \<Rightarrow>
          if map_of (debt_positions self) symbol = None
          then
            (case get_debt_amounts self of
               Inl e \<Rightarrow> (Inl e, issued)
             | Inr debt_amounts \<Rightarrow>
            (case getitem debt_amounts symbol of
               Inl e \<Rightarrow> (Inl e, issued)
             | Inr amount \<Rightarrow>
            (case borrow self amount symbol issued of
               (Inl e, issued') \<Rightarrow> (Inl e, issued')
             | (Inr u, issued') \<Rightarrow> (Inr False, issued'))))
          else (Inr False, issued))"

text \<open>Lines 135-141: what is placed before the loop, by the number of open orders.\<close>

definition place_missing :: "bot \<Rightarrow> string \<Rightarrow> order list \<Rightarrow> unit action" where
  "place_missing self market orders issued =
     (case (if length orders = 0 then place_orders self market False False issued
            else (Inr (), issued)) of
        (Inl e, issued') \<Rightarrow> (Inl e, issued')
      | (Inr u, issued') \<Rightarrow>
          if length orders = 1
          then (if order_type (orders ! 0) = ''sell''
                then place_orders self market False True issued'
                else if order_type (orders ! 0) = ''buy''
                then place_orders self market True False issued'
                else (Inr (), issued'))
          else (Inr (), issued'))"

definition check_and_replace :: "bot \<Rightarrow> string \<Rightarrow> bool action" where
  "check_and_replace self market issued =
     (case map_of (open_orders self) market of
        None \<Rightarrow> borrow_missing self market issued
      | Some orders \<Rightarrow>
     (case place_missing self market orders issued of
        (Inl e, issued') \<Rightarrow> (Inl e, issued')
      | (Inr u, issued') \<Rightarrow>
     (case orders_loop self market orders issued' of
        (Inl e, issued'') \<Rightarrow> (Inl e, issued'')
      | (Inr True, issued'') \<Rightarrow> (Inr True, issued'')
      | (Inr False, issued'') \<Rightarrow> borrow_missing self market issued'')))"

subsection \<open>The scheduler: update\_data, tick\<close>

definition update_data :: "bot \<Rightarrow> command list \<Rightarrow> bot" where
  "update_data self issued =
     self\<lparr>ticker := returnTicker (dex self) issued,
          open_orders := returnOpenOrders (dex self) issued,
          debt_positions := list_debt_positions (dex self) issued,
          balances := returnBalances (dex self) issued\<rparr>"

text \<open>
  Lines 128-131, the work of an active tick: the four snapshots are fetched, then every
  configured market is reconciled in turn. The object is returned also when an exception
  ends the tick, as Python leaves it.
\<close>

definition run_markets :: "bot \<Rightarrow> command list \<Rightarrow> (error + unit) \<times> bot \<times> command list" where
  "run_markets self issued =
     (let self' = update_data self issued
      in case setting markets ''markets'' self' of
           Inl e \<Rightarrow> (Inl e, self', issued)
         | Inr ms \<Rightarrow>
             (case for_each
                     (\<lambda>market issued'.
                         case check_and_replace self' market issued' of
                           (Inl e, issued'') \<Rightarrow> (Inl e, issued'')
                         | (Inr replaced, issued'') \<Rightarrow> (Inr (), issued''))
                     ms issued of
                (r, issued') \<Rightarrow> (r, self', issued')))"

text \<open>
  Line 50 and lines 125-131. \<^verbatim>\<open>block_counter\<close> starts at \<open>-1\<close>; Python's
  \<^verbatim>\<open>%\<close> on integers is \<open>mod\<close>, and raises on zero.
\<close>

definition initial_block_counter :: int where
  "initial_block_counter = - 1"

definition tick :: "bot \<Rightarrow> command list \<Rightarrow> (error + unit) \<times> bot \<times> command list" where
  "tick self issued =
     (let self' = self\<lparr>block_counter := block_counter self + 1\<rparr>
      in case setting skip_blocks ''skip_blocks'' self' of
           Inl e \<Rightarrow> (Inl e, self', issued)
         | Inr skip \<Rightarrow>
             if skip = 0 then (Inl ZeroDivisionError, self', issued)
             else if block_counter self' mod skip = 0 then run_markets self' issued
             else (Inr (), self', issued))"


subsection \<open>Start-up: init\<close>

text \<open>
  Lines 58-59, 70-71, 73-74 and 76-77: a setting that is absent gets its default.
\<close>

definition default_offset :: "settings \<Rightarrow> settings" where
  "default_offset s =
     (if target_price_offset_percentage s = None
      then s\<lparr>target_price_offset_percentage := Some 0\<rparr> else s)"

definition default_symmetric_sides :: "settings \<Rightarrow> settings" where
  "default_symmetric_sides s =
     (if symmetric_sides s = None then s\<lparr>symmetric_sides := Some True\<rparr> else s)"

definition default_expiration :: "settings \<Rightarrow> settings" where
  "default_expiration s =
     (if expiration s = None then s\<lparr>expiration := Some (60 * 60 * 24)\<rparr> else s)"

definition default_skip_blocks :: "settings \<Rightarrow> settings" where
  "default_skip_blocks s =
     (if skip_blocks s = None then s\<lparr>skip_blocks := Some 20\<rparr> else s)"

text \<open>
  Lines 58-89: defaults and required settings, in the order of the source. The settings
  are changed in place, so they are returned also when a required one is missing.
\<close>

definition init_settings :: "settings \<Rightarrow> (error + unit) \<times> settings" where
  "init_settings s0 =
     (let s1 = default_offset s0
      in if target_price s1 = None then (Inl (MissingSettingsException ''target_price''), s1)
         else if spread_percentage s1 = None
         then (Inl (MissingSettingsException ''spread_percentage''), s1)
         else if volume_percentage s1 = None
         then (Inl (MissingSettingsException ''volume_percentage''), s1)
         else
     (let s4 = default_skip_blocks (default_expiration (default_symmetric_sides s1))
      in if ratio s4 = None then (Inl (MissingSettingsException ''ratio''), s4)
         else if borrow_percentages s4 = None
         then (Inl (MissingSettingsException ''borrow_percentages''), s4)
         else if minimum_amounts s4 = None
         then (Inl (MissingSettingsException ''minimum_amounts''), s4)
         else if minimum_change_percentage s4 = None
         then (Inl (MissingSettingsException ''minimum_change_percentage''), s4)
         else (Inr (), s4)))"

text \<open>Lines 93-107: every market's quote asset is a bitasset backed by the market's base.\<close>

fun verify_markets :: "bot \<Rightarrow> string list \<Rightarrow> error + unit" where
  "verify_markets self [] = Inr ()"
| "verify_markets self (market # ms) =
     (case split_market market (market_separator (dex self)) of
        Inl e \<Rightarrow> Inl e
      | Inr (quote_name, base_name) \<Rightarrow>
          (let quote = get_asset (dex self) quote_name;
               base = get_asset (dex self) base_name
           in case bitasset_data_id quote of
                None \<Rightarrow>
                  Inl (ValueError (''The quote asset '' @ quote_name
                        @ '' is not a bitasset and thus can't be borrowed''))
              | Some bitasset \<Rightarrow>
                  if short_backing_asset (dex self) bitasset = asset_id base
                  then verify_markets self ms
                  else Inl (AssertionError (''Collateral asset of '' @ quote_name
                              @ '' doesn't match''))))"

definition init :: "bot \<Rightarrow> command list \<Rightarrow> (error + unit) \<times> bot \<times> command list" where
  "init self issued =
     (case init_settings (settings self) of
        (Inl e, s) \<Rightarrow> (Inl e, self\<lparr>settings := s\<rparr>, issued)
      | (Inr u, s) \<Rightarrow>
     (let self1 = self\<lparr>settings := s\<rparr>
      in case setting markets ''markets'' self1 of
           Inl e \<Rightarrow> (Inl e, self1, issued)
         | Inr ms \<Rightarrow>
     (case verify_markets self1 ms of
        Inl e \<Rightarrow> (Inl e, self1, issued)
      | Inr u \<Rightarrow>
     (let self2 = update_data self1 issued
      in case (if length (debt_positions self2) = 0
               then place_initial_debt_positions self2 issued
               else (Inr (), issued)) of
           (Inl e, issued') \<Rightarrow> (Inl e, self2, issued')
         | (Inr u, issued') \<Rightarrow> tick self2 issued'))))"

subsection \<open>Vocabulary of the statements\<close>

text \<open>
  \<open>adds P act\<close>: whatever log \<open>act\<close> starts from, it only appends commands to it,
  and every command it appends satisfies \<open>P\<close>.
\<close>

definition adds :: "(command \<Rightarrow> bool) \<Rightarrow> 'a action \<Rightarrow> bool" where
  "adds P act \<longleftrightarrow> (\<forall>issued. \<exists>cmds. snd (act issued) = issued @ cmds \<and> list_all P cmds)"

text \<open>An order of size \<open>a\<close> in market \<open>m\<close> is at least the minimum of \<open>m\<close>'s quote asset.\<close>

definition min_ok :: "bot \<Rightarrow> string \<Rightarrow> real \<Rightarrow> bool" where
  "min_ok self m a =
     (case split_market m (config_market_separator self) of
        Inl e \<Rightarrow> False
      | Inr (quote, base) \<Rightarrow>
          (case minimum_amount self quote of Inl e \<Rightarrow> False | Inr mn \<Rightarrow> mn \<le> a))"

text \<open>
  A command that \<^verbatim>\<open>place_orders\<close> may issue: a sell unless \<open>only_buy\<close>, a buy unless
  \<open>only_sell\<close>, in a market accepted by \<open>M\<close>, of a size that passes the gate.
\<close>

definition placed_ok :: "bot \<Rightarrow> (string \<Rightarrow> bool) \<Rightarrow> bool \<Rightarrow> bool \<Rightarrow> command \<Rightarrow> bool" where
  "placed_ok self M only_sell only_buy c =
     (case c of
        Sell m p a \<Rightarrow> \<not> only_buy \<and> M m \<and> min_ok self m a
      | Buy m p a \<Rightarrow> \<not> only_sell \<and> M m \<and> min_ok self m a
      | _ \<Rightarrow> False)"

subsection \<open>An example configuration\<close>

text \<open>
  The configuration of the class's docstring: one market \<^verbatim>\<open>USD:BTS\<close>, a fixed target
  price of 100 with 5 percent offset, 5 percent spread, 2.5 percent allowed spread,
  10 percent volume, and an account holding 1000 BTS and 50 USD.
\<close>

definition ex_settings :: settings where
  "ex_settings =
     \<lparr>markets = Some [''USD:BTS''], target_price = Some (TFloat 100),
      target_price_offset_percentage = Some 5, spread_percentage = Some 5,
      allowed_spread_percentage = Some (5 / 2), volume_percentage = Some 10,
      symmetric_sides = Some True, expiration = Some 21600, skip_blocks = Some 20,
      ratio = Some (5 / 2), borrow_percentages = Some [(''USD'', 30), (''BTS'', 70)],
      minimum_amounts = Some [(''USD'', 1 / 5), (''BTS'', 5)],
      minimum_change_percentage = Some 10, calculate_bts_total = None\<rparr>"

definition ex_dex :: dex where
  "ex_dex =
     \<lparr>market_separator = '':'',
      returnTicker = (\<lambda>issued. [(''USD:BTS'', \<lparr>settlement_price = Some 2\<rparr>)]),
      returnOpenOrders = (\<lambda>issued. [(''USD:BTS'', [])]),
      list_debt_positions = (\<lambda>issued. []),
      returnBalances = (\<lambda>issued. [(''BTS'', 1000), (''USD'', 50)]),
      get_asset = (\<lambda>name. \<lparr>asset_id = name,
                     bitasset_data_id = (if name = ''USD'' then Some ''2.4.21'' else None)\<rparr>),
      short_backing_asset = (\<lambda>bitasset. ''BTS''),
      fails = (\<lambda>issued c. False)\<rparr>"

definition ex_bot :: bot where
  "ex_bot =
     \<lparr>settings = ex_settings, dex = ex_dex, config_market_separator = '':'',
      ticker = [(''USD:BTS'', \<lparr>settlement_price = Some 2\<rparr>)],
      open_orders = [(''USD:BTS'', [])],
      debt_positions = [(''USD'', \<lparr>debt = 100, collateral = 500, collateral_asset = ''BTS''\<rparr>)],
      balances = [(''BTS'', 1000), (''USD'', 50)],
      block_counter = initial_block_counter, recursion_limit = 100\<rparr>"


subsection \<open>The settings validator, as specified\<close>

text \<open>
  The required settings that are absent, in the order in which the specification lists
  them (which is also the order in which \<^verbatim>\<open>init\<close> checks them).
\<close>

definition missing_settings :: "settings \<Rightarrow> string list" where
  "missing_settings s =
     (if target_price s = None then [''target_price''] else []) @
     (if spread_percentage s = None then [''spread_percentage''] else []) @
     (if volume_percentage s = None then [''volume_percentage''] else []) @
     (if ratio s = None then [''ratio''] else []) @
     (if borrow_percentages s = None then [''borrow_percentages''] else []) @
     (if minimum_amounts s = None then [''minimum_amounts''] else []) @
     (if minimum_change_percentage s = None then [''minimum_change_percentage''] else [])"

text \<open>The settings with the four documented defaults filled in where a key is absent.\<close>

definition with_defaults :: "settings \<Rightarrow> settings" where
  "with_defaults s =
     s\<lparr>target_price_offset_percentage :=
          Some (case target_price_offset_percentage s of None \<Rightarrow> 0 | Some v \<Rightarrow> v),
       symmetric_sides := Some (case symmetric_sides s of None \<Rightarrow> True | Some v \<Rightarrow> v),
       expiration := Some (case expiration s of None \<Rightarrow> 86400 | Some v \<Rightarrow> v),
       skip_blocks := Some (case skip_blocks s of None \<Rightarrow> 20 | Some v \<Rightarrow> v)\<rparr>"

text \<open>
  The test of line 145 on one order: its distance from the feed, in percent, is at most
  half the allowed spread or at least half of allowed spread plus spread.
\<close>

definition out_of_band :: "real \<Rightarrow> real \<Rightarrow> real \<Rightarrow> order \<Rightarrow> bool" where
  "out_of_band allowed spread feed ord \<longleftrightarrow>
     order_feed_spread ord feed \<le> allowed / 2 \<or>
     order_feed_spread ord feed \<ge> (allowed + spread) / 2"

fun is_order :: "command \<Rightarrow> bool" where
  "is_order (Sell m p a) = True"
| "is_order (Buy m p a) = True"
| "is_order c = False"

fun is_cancel :: "command \<Rightarrow> bool" where
  "is_cancel (Cancel n) = True"
| "is_cancel c = False"

fun is_borrow :: "command \<Rightarrow> bool" where
  "is_borrow (Borrow a s r) = True"
| "is_borrow c = False"

fun is_sell :: "command \<Rightarrow> bool" where
  "is_sell (Sell m p a) = True"
| "is_sell c = False"

fun is_buy :: "command \<Rightarrow> bool" where
  "is_buy (Buy m p a) = True"
| "is_buy c = False"

section \<open>Properties\<close>

subsection \<open>Rounding to binary64\<close>

lemma pow2_powr: "pow2 k = 2 powr real_of_int k"
  using powr_int[of 2 k] by (simp add: pow2_def)

lemma pow2_pos [simp]: "0 < pow2 k"
  by (simp add: pow2_powr)

lemma pow2_nonzero [simp]: "pow2 k \<noteq> 0"
  using pow2_pos[of k] by linarith

lemma pow2_add: "pow2 (a + b) = pow2 a * pow2 b"
  by (simp add: pow2_powr powr_add)

lemma pow2_nat: "pow2 (int n) = 2 ^ n"
  by (simp add: pow2_def)





lemma floor_log2:
  assumes "0 < x" "pow2 k \<le> x" "x < pow2 (k + 1)"
  shows "\<lfloor>log 2 x\<rfloor> = k"
  using floor_log_eq_powr_iff[of x 2 k] assms by (simp add: pow2_powr)






lemma round_even_eqI: "\<bar>x - real_of_int n\<bar> < 1 / 2 \<Longrightarrow> round_even x = n"
proof -
  assume a: "\<bar>x - real_of_int n\<bar> < 1 / 2"
  show ?thesis
  proof (cases "real_of_int n \<le> x")
    case True
    then have "\<lfloor>x\<rfloor> = n" using a by (intro floor_unique) linarith+
    then show ?thesis using a True by (simp add: round_even_def Let_def)
  next
    case False
    then have "\<lfloor>x\<rfloor> = n - 1" using a by (intro floor_unique; simp; linarith)
    then show ?thesis using a False by (auto simp: round_even_def Let_def)
  qed
qed

lemma fl_0 [simp]: "fl 0 = 0"
  by (simp add: fl_def)


lemma fl_pos:
  assumes "0 < x" "pow2 k \<le> x" "x < pow2 (k + 1)"
  shows "fl x = real_of_int (round_even (x / pow2 (k - 52))) * pow2 (k - 52)"
proof -
  have "\<lfloor>log 2 \<bar>x\<bar>\<rfloor> = k" using floor_log2[OF assms] assms(1) by simp
  then show ?thesis using assms(1) by (simp add: fl_def Let_def)
qed

lemma fl_pos_div:
  assumes "0 < x" "2 ^ 52 \<le> x * 2 ^ j" "x * 2 ^ j < 2 ^ 53"
  shows "fl x = real_of_int (round_even (x * 2 ^ j)) / 2 ^ j"
proof -
  have q: "pow2 (- int j) = 1 / 2 ^ j"
    using pow2_add[of "- int j" "int j"] pow2_nat[of j] pow2_nat[of 0]
    by (simp add: field_simps)
  have p: "pow2 (52 - int j) = 2 ^ 52 / 2 ^ j" "pow2 (52 - int j + 1) = 2 ^ 53 / 2 ^ j"
    using pow2_add[of 52 "- int j"] pow2_add[of 53 "- int j"] pow2_nat[of 52] pow2_nat[of 53] q
    by simp_all
  have a: "pow2 (52 - int j) \<le> x"
    unfolding p using assms(2) by (simp add: pos_divide_le_eq)
  have b: "x < pow2 (52 - int j + 1)"
    unfolding p using assms(3) by (simp add: pos_less_divide_eq)
  have "fl x = real_of_int (round_even (x / pow2 (52 - int j - 52))) * pow2 (52 - int j - 52)"
    using assms(1) a b by (rule fl_pos)
  moreover have "52 - int j - 52 = - int j" by simp
  ultimately have "fl x = real_of_int (round_even (x / pow2 (- int j))) * pow2 (- int j)"
    by simp
  then show ?thesis unfolding q by simp
qed

lemma fl_eqI:
  assumes "0 < x" "2 ^ 52 \<le> x * 2 ^ j" "x * 2 ^ j < 2 ^ 53"
    and "\<bar>x * 2 ^ j - real_of_int n\<bar> < 1 / 2"
  shows "fl x = real_of_int n / 2 ^ j"
  using fl_pos_div[OF assms(1-3)] round_even_eqI[OF assms(4)] by simp










lemma fl_1 [simp]: "fl (1) = 1"
proof -
  have "fl (1) = real_of_int 4503599627370496 / 2 ^ 52"
    by (rule fl_eqI) simp_all
  then show ?thesis by simp
qed












lemma ex_fl_1: "fl (1 / 20) = 3602879701896397 / 72057594037927936"
proof -
  have "fl (1 / 20) = real_of_int 7205759403792794 / 2 ^ 57"
    by (rule fl_eqI) simp_all
  then show ?thesis by simp
qed

lemma ex_fl_2: "fl (75660473739824333 / 72057594037927936) = 4728779608739021 / 4503599627370496"
proof -
  have "fl (75660473739824333 / 72057594037927936) = real_of_int 4728779608739021 / 2 ^ 52"
    by (rule fl_eqI) simp_all
  then show ?thesis by simp
qed

lemma ex_fl_3: "fl (100) = 100"
proof -
  have "fl (100) = real_of_int 7036874417766400 / 2 ^ 46"
    by (rule fl_eqI) simp_all
  then show ?thesis by simp
qed

lemma ex_fl_4: "fl (118219490218475525 / 1125899906842624) = 105"
proof -
  have "fl (118219490218475525 / 1125899906842624) = real_of_int 7388718138654720 / 2 ^ 46"
    by (rule fl_eqI) simp_all
  then show ?thesis by simp
qed

lemma ex_fl_5: "fl (1 / 40) = 3602879701896397 / 144115188075855872"
proof -
  have "fl (1 / 40) = real_of_int 7205759403792794 / 2 ^ 58"
    by (rule fl_eqI) simp_all
  then show ?thesis by simp
qed

lemma ex_fl_6: "fl (140512308373959475 / 144115188075855872) = 8782019273372467 / 9007199254740992"
proof -
  have "fl (140512308373959475 / 144115188075855872) = real_of_int 8782019273372467 / 2 ^ 53"
    by (rule fl_eqI) simp_all
  then show ?thesis by simp
qed

lemma ex_fl_7: "fl (147718067777752269 / 144115188075855872) = 2308094809027379 / 2251799813685248"
proof -
  have "fl (147718067777752269 / 144115188075855872) = real_of_int 4616189618054758 / 2 ^ 52"
    by (rule fl_eqI) simp_all
  then show ?thesis by simp
qed

lemma ex_fl_8: "fl (922112023704109035 / 9007199254740992) = 819 / 8"
proof -
  have "fl (922112023704109035 / 9007199254740992) = real_of_int 7204000185188352 / 2 ^ 46"
    by (rule fl_eqI) simp_all
  then show ?thesis by simp
qed

lemma ex_fl_9: "fl (242349954947874795 / 2251799813685248) = 7573436092121087 / 70368744177664"
proof -
  have "fl (242349954947874795 / 2251799813685248) = real_of_int 7573436092121087 / 2 ^ 46"
    by (rule fl_eqI) simp_all
  then show ?thesis by simp
qed

lemmas ex_fl = ex_fl_1 ex_fl_2 ex_fl_3 ex_fl_4 ex_fl_5 ex_fl_6 ex_fl_7 ex_fl_8 ex_fl_9

lemma ex_base: "fl (fl 100 * fl (1 + fl (5 / 100))) = 105"
  by (simp add: ex_fl)

lemma ex_buy: "fl (105 * fl (1 - fl (5 / 200))) = 819 / 8"
  by (simp add: ex_fl)

lemma ex_sell: "fl (105 * fl (1 + fl (5 / 200))) = 7573436092121087 / 70368744177664"
  by (simp add: ex_fl)


subsection \<open>Commands are only appended\<close>

lemma addsI:
  "(\<And>issued. \<exists>cmds. snd (act issued) = issued @ cmds \<and> list_all P cmds) \<Longrightarrow> adds P act"
  by (simp add: adds_def)

lemma addsD: "adds P act \<Longrightarrow> \<exists>cmds. snd (act issued) = issued @ cmds \<and> list_all P cmds"
  by (simp add: adds_def)

lemma adds_mono: "adds P act \<Longrightarrow> (\<And>c. P c \<Longrightarrow> Q c) \<Longrightarrow> adds Q act"
  unfolding adds_def by (metis list.pred_mono_strong)

lemma adds_dex_call: "P c \<Longrightarrow> adds P (dex_call self c)"
  by (simp add: adds_def dex_call_def)

lemma adds_for_each:
  assumes "\<And>x. adds P (body x)"
  shows "adds P (for_each body xs)"
proof (rule addsI)
  fix issued
  show "\<exists>cmds. snd (for_each body xs issued) = issued @ cmds \<and> list_all P cmds"
  proof (induction xs arbitrary: issued)
    case Nil
    then show ?case by simp
  next
    case (Cons x xs)
    obtain c1 where c1: "snd (body x issued) = issued @ c1" "list_all P c1"
      using addsD[OF assms] by blast
    obtain c2 where c2: "snd (for_each body xs (issued @ c1)) = (issued @ c1) @ c2"
      "list_all P c2"
      using Cons.IH by blast
    show ?case
    proof (cases "body x issued")
      case (Pair r l)
      then show ?thesis using c1 c2 by (cases r) (auto intro!: exI[of _ "c1 @ c2"])
    qed
  qed
qed

subsection \<open>What place\_orders issues\<close>

lemma adds_sell_side:
  assumes "split_market market (config_market_separator self) = Inr (quote, base)" "M market"
  shows "adds (placed_ok self M only_sell only_buy)
           (sell_side self market only_sell only_buy amounts quote base buy_price sell_price)"
  using assms
  by (auto simp: adds_def sell_side_def sell_def dex_call_def placed_ok_def min_ok_def
      split: option.splits sum.splits)

lemma adds_buy_side:
  assumes "split_market market (config_market_separator self) = Inr (quote, base)" "M market"
  shows "adds (placed_ok self M only_sell only_buy)
           (buy_side self market only_sell only_buy amounts quote base buy_price)"
  using assms
  by (auto simp: adds_def buy_side_def buy_def dex_call_def placed_ok_def min_ok_def
      split: option.splits sum.splits)

lemma adds_place_orders_market:
  assumes "M market"
  shows "adds (placed_ok self M only_sell only_buy)
           (place_orders_market self market only_sell only_buy)"
proof (rule addsI)
  fix issued
  show "\<exists>cmds. snd (place_orders_market self market only_sell only_buy issued) = issued @ cmds
          \<and> list_all (placed_ok self M only_sell only_buy) cmds"
  proof (cases "order_prices self market (returnBalances (dex self) issued)")
    case (Inl e)
    then show ?thesis by (simp add: place_orders_market_def)
  next
    case (Inr t)
    obtain amounts buy_price sell_price where t: "t = (amounts, buy_price, sell_price)"
      by (cases t) auto
    show ?thesis
    proof (cases "split_market market (config_market_separator self)")
      case (Inl e)
      then show ?thesis using Inr t by (simp add: place_orders_market_def)
    next
      case sm: (Inr qb)
      obtain quote base where qb: "qb = (quote, base)" by (cases qb) auto
      have sm': "split_market market (config_market_separator self) = Inr (quote, base)"
        using sm qb by simp
      have s: "adds (placed_ok self M only_sell only_buy)
           (sell_side self market only_sell only_buy amounts quote base buy_price sell_price)"
        using sm' assms by (rule adds_sell_side)
      have b: "adds (placed_ok self M only_sell only_buy)
           (buy_side self market only_sell only_buy amounts quote base buy_price)"
        using sm' assms by (rule adds_buy_side)
      obtain c1 where c1:
        "snd (sell_side self market only_sell only_buy amounts quote base buy_price sell_price
               issued) = issued @ c1"
        "list_all (placed_ok self M only_sell only_buy) c1"
        using addsD[OF s] by blast
      obtain c2 where c2:
        "snd (buy_side self market only_sell only_buy amounts quote base buy_price
               (issued @ c1)) = (issued @ c1) @ c2"
        "list_all (placed_ok self M only_sell only_buy) c2"
        using addsD[OF b] by blast
      show ?thesis
      proof (cases "sell_side self market only_sell only_buy amounts quote base buy_price
                      sell_price issued")
        case (Pair r l)
        then show ?thesis using Inr t sm qb c1 c2
          by (cases r) (auto simp: place_orders_market_def intro!: exI[of _ "c1 @ c2"])
      qed
    qed
  qed
qed

lemma adds_place_orders_all:
  "adds (placed_ok self (\<lambda>m. True) False False) (place_orders_all depth self)"
proof (induction depth)
  case 0
  then show ?case by (simp add: adds_def)
next
  case (Suc depth)
  show ?case
  proof (cases "setting markets ''markets'' self")
    case (Inl e)
    then show ?thesis by (simp add: adds_def)
  next
    case (Inr ms)
    have "adds (placed_ok self (\<lambda>m. True) False False)
            (for_each (\<lambda>market issued'.
                if market \<noteq> ''all'' then place_orders_market self market False False issued'
                else place_orders_all depth self issued') ms)"
    proof (rule adds_for_each)
      fix x
      show "adds (placed_ok self (\<lambda>m. True) False False)
              (\<lambda>issued'. if x \<noteq> ''all'' then place_orders_market self x False False issued'
                else place_orders_all depth self issued')"
        using Suc.IH adds_place_orders_market[of "\<lambda>m. True" x self False False]
        by (cases "x = ''all''") (simp_all add: adds_def)
    qed
    then show ?thesis using Inr by (simp add: adds_def)
  qed
qed

lemma adds_place_orders:
  "adds (\<lambda>c. placed_ok self (\<lambda>m. market \<noteq> ''all'' \<longrightarrow> m = market)
               (only_sell \<and> market \<noteq> ''all'') (only_buy \<and> market \<noteq> ''all'') c)
     (place_orders self market only_sell only_buy)"
proof (cases "market = ''all''")
  case True
  have "adds (placed_ok self (\<lambda>m. True) False False) (place_orders self market only_sell only_buy)"
    using adds_place_orders_all[of self "recursion_limit self"] True
    by (simp add: adds_def place_orders_def)
  then show ?thesis using True by simp
next
  case False
  have "adds (placed_ok self (\<lambda>m. m = market) only_sell only_buy)
          (place_orders self market only_sell only_buy)"
    using adds_place_orders_market[of "\<lambda>m. m = market" market self only_sell only_buy] False
    by (simp add: adds_def place_orders_def)
  then show ?thesis using False by simp
qed

lemma ex_split_market: "split_market ''USD:BTS'' '':'' = Inr (''USD'', ''BTS'')"
  by (simp add: split_market_def str_split_def)

lemma ex_place_orders:
  "place_orders ex_bot ''USD:BTS'' False False [] =
     (Inr (), [Sell ''USD:BTS'' (7573436092121087 / 70368744177664) (800 / 819), Buy ''USD:BTS'' (819 / 8) (800 / 819)])"
  by (simp add: place_orders_def place_orders_market_def order_prices_def ex_bot_def ex_dex_def
      ex_settings_def setting_def ex_split_market getitem_def base_price_of_def sell_side_def
      buy_side_def minimum_amount_def sell_def buy_def dex_call_def ex_fl)

text \<open>
  C7. Whatever the market, the flags and the balances, every order that
  \<^verbatim>\<open>place_orders\<close> submits, sell or buy, has a size of at least
  \<^verbatim>\<open>minimum_amounts[quote]\<close>, the minimum of the quote asset of the order's market;
  the buy side is held to the quote asset's minimum as well. \<^verbatim>\<open>place_orders\<close>
  submits nothing but sell and buy orders, and for a market other than \<^verbatim>\<open>all\<close> only
  in that market.
\<close>

theorem place_orders_minimum_size:
  "\<exists>cmds. snd (place_orders self market only_sell only_buy issued) = issued @ cmds \<and>
     (\<forall>c \<in> set cmds. \<exists>m p a quote base mn.
        (c = Sell m p a \<or> c = Buy m p a) \<and> (market \<noteq> ''all'' \<longrightarrow> m = market) \<and>
        split_market m (config_market_separator self) = Inr (quote, base) \<and>
        minimum_amount self quote = Inr mn \<and> mn \<le> a)"
proof -
  obtain cmds where cmds:
    "snd (place_orders self market only_sell only_buy issued) = issued @ cmds"
    "list_all (placed_ok self (\<lambda>m. market \<noteq> ''all'' \<longrightarrow> m = market)
                 (only_sell \<and> market \<noteq> ''all'') (only_buy \<and> market \<noteq> ''all'')) cmds"
    using addsD[OF adds_place_orders] by blast
  have "\<exists>m p a quote base mn.
        (c = Sell m p a \<or> c = Buy m p a) \<and> (market \<noteq> ''all'' \<longrightarrow> m = market) \<and>
        split_market m (config_market_separator self) = Inr (quote, base) \<and>
        minimum_amount self quote = Inr mn \<and> mn \<le> a" if "c \<in> set cmds" for c
  proof -
    have "placed_ok self (\<lambda>m. market \<noteq> ''all'' \<longrightarrow> m = market)
            (only_sell \<and> market \<noteq> ''all'') (only_buy \<and> market \<noteq> ''all'') c"
      using cmds(2) that by (simp add: list_all_iff)
    then show ?thesis
      by (cases c) (auto simp: placed_ok_def min_ok_def split: sum.splits)
  qed
  with cmds(1) show ?thesis by blast
qed

text \<open>
  In the example both orders have size 800/819: above the 0.2 USD of the quote asset,
  and the buy order is submitted although it is below the 5 BTS of the base asset.
\<close>

theorem place_orders_minimum_size_witness:
  "snd (place_orders ex_bot ''USD:BTS'' False False []) =
     [Sell ''USD:BTS'' (7573436092121087 / 70368744177664) (800 / 819), Buy ''USD:BTS'' (819 / 8) (800 / 819)] \<and>
   minimum_amount ex_bot ''USD'' = Inr (1 / 5) \<and> minimum_amount ex_bot ''BTS'' = Inr 5 \<and>
   (\<exists>cmds. snd (place_orders ex_bot ''USD:BTS'' False False []) = [] @ cmds \<and> cmds \<noteq> [] \<and>
     (\<forall>c \<in> set cmds. \<exists>m p a quote base mn.
        (c = Sell m p a \<or> c = Buy m p a) \<and> (''USD:BTS'' \<noteq> ''all'' \<longrightarrow> m = ''USD:BTS'') \<and>
        split_market m (config_market_separator ex_bot) = Inr (quote, base) \<and>
        minimum_amount ex_bot quote = Inr mn \<and> mn \<le> a))"
proof -
  have m: "minimum_amount ex_bot ''USD'' = Inr (1 / 5)" "minimum_amount ex_bot ''BTS'' = Inr 5"
    by (simp_all add: minimum_amount_def ex_bot_def ex_settings_def setting_def getitem_def)
  from place_orders_minimum_size[of ex_bot "''USD:BTS''" False False "[]"]
  obtain cmds where cmds: "snd (place_orders ex_bot ''USD:BTS'' False False []) = [] @ cmds"
    "\<forall>c \<in> set cmds. \<exists>m p a quote base mn.
        (c = Sell m p a \<or> c = Buy m p a) \<and> (''USD:BTS'' \<noteq> ''all'' \<longrightarrow> m = ''USD:BTS'') \<and>
        split_market m (config_market_separator ex_bot) = Inr (quote, base) \<and>
        minimum_amount ex_bot quote = Inr mn \<and> mn \<le> a"
    by blast
  have "cmds \<noteq> []" using cmds(1) by (auto simp: ex_place_orders)
  with cmds m show ?thesis by (simp add: ex_place_orders)
qed

subsection \<open>The settings validator\<close>

lemma default_offset_fields [simp]:
  "markets (default_offset s) = markets s"
  "target_price (default_offset s) = target_price s"
  "target_price_offset_percentage (default_offset s) = Some (case target_price_offset_percentage s of None \<Rightarrow> 0 | Some v \<Rightarrow> v)"
  "spread_percentage (default_offset s) = spread_percentage s"
  "allowed_spread_percentage (default_offset s) = allowed_spread_percentage s"
  "volume_percentage (default_offset s) = volume_percentage s"
  "symmetric_sides (default_offset s) = symmetric_sides s"
  "expiration (default_offset s) = expiration s"
  "skip_blocks (default_offset s) = skip_blocks s"
  "ratio (default_offset s) = ratio s"
  "borrow_percentages (default_offset s) = borrow_percentages s"
  "minimum_amounts (default_offset s) = minimum_amounts s"
  "minimum_change_percentage (default_offset s) = minimum_change_percentage s"
  "calculate_bts_total (default_offset s) = calculate_bts_total s"
  "settings.more (default_offset s) = settings.more s"
  by (auto simp: default_offset_def)

lemma default_symmetric_sides_fields [simp]:
  "markets (default_symmetric_sides s) = markets s"
  "target_price (default_symmetric_sides s) = target_price s"
  "target_price_offset_percentage (default_symmetric_sides s) = target_price_offset_percentage s"
  "spread_percentage (default_symmetric_sides s) = spread_percentage s"
  "allowed_spread_percentage (default_symmetric_sides s) = allowed_spread_percentage s"
  "volume_percentage (default_symmetric_sides s) = volume_percentage s"
  "symmetric_sides (default_symmetric_sides s) = Some (case symmetric_sides s of None \<Rightarrow> True | Some v \<Rightarrow> v)"
  "expiration (default_symmetric_sides s) = expiration s"
  "skip_blocks (default_symmetric_sides s) = skip_blocks s"
  "ratio (default_symmetric_sides s) = ratio s"
  "borrow_percentages (default_symmetric_sides s) = borrow_percentages s"
  "minimum_amounts (default_symmetric_sides s) = minimum_amounts s"
  "minimum_change_percentage (default_symmetric_sides s) = minimum_change_percentage s"
  "calculate_bts_total (default_symmetric_sides s) = calculate_bts_total s"
  "settings.more (default_symmetric_sides s) = settings.more s"
  by (auto simp: default_symmetric_sides_def)

lemma default_expiration_fields [simp]:
  "markets (default_expiration s) = markets s"
  "target_price (default_expiration s) = target_price s"
  "target_price_offset_percentage (default_expiration s) = target_price_offset_percentage s"
  "spread_percentage (default_expiration s) = spread_percentage s"
  "allowed_spread_percentage (default_expiration s) = allowed_spread_percentage s"
  "volume_percentage (default_expiration s) = volume_percentage s"
  "symmetric_sides (default_expiration s) = symmetric_sides s"
  "expiration (default_expiration s) = Some (case expiration s of None \<Rightarrow> 86400 | Some v \<Rightarrow> v)"
  "skip_blocks (default_expiration s) = skip_blocks s"
  "ratio (default_expiration s) = ratio s"
  "borrow_percentages (default_expiration s) = borrow_percentages s"
  "minimum_amounts (default_expiration s) = minimum_amounts s"
  "minimum_change_percentage (default_expiration s) = minimum_change_percentage s"
  "calculate_bts_total (default_expiration s) = calculate_bts_total s"
  "settings.more (default_expiration s) = settings.more s"
  by (auto simp: default_expiration_def)

lemma default_skip_blocks_fields [simp]:
  "markets (default_skip_blocks s) = markets s"
  "target_price (default_skip_blocks s) = target_price s"
  "target_price_offset_percentage (default_skip_blocks s) = target_price_offset_percentage s"
  "spread_percentage (default_skip_blocks s) = spread_percentage s"
  "allowed_spread_percentage (default_skip_blocks s) = allowed_spread_percentage s"
  "volume_percentage (default_skip_blocks s) = volume_percentage s"
  "symmetric_sides (default_skip_blocks s) = symmetric_sides s"
  "expiration (default_skip_blocks s) = expiration s"
  "skip_blocks (default_skip_blocks s) = Some (case skip_blocks s of None \<Rightarrow> 20 | Some v \<Rightarrow> v)"
  "ratio (default_skip_blocks s) = ratio s"
  "borrow_percentages (default_skip_blocks s) = borrow_percentages s"
  "minimum_amounts (default_skip_blocks s) = minimum_amounts s"
  "minimum_change_percentage (default_skip_blocks s) = minimum_change_percentage s"
  "calculate_bts_total (default_skip_blocks s) = calculate_bts_total s"
  "settings.more (default_skip_blocks s) = settings.more s"
  by (auto simp: default_skip_blocks_def)

lemma missing_settings_Nil:
  "missing_settings s = [] \<longleftrightarrow>
     target_price s \<noteq> None \<and> spread_percentage s \<noteq> None \<and> volume_percentage s \<noteq> None \<and>
     ratio s \<noteq> None \<and> borrow_percentages s \<noteq> None \<and> minimum_amounts s \<noteq> None \<and>
     minimum_change_percentage s \<noteq> None"
  by (simp add: missing_settings_def)

lemma init_settings_result:
  "fst (init_settings s) =
     (case missing_settings s of [] \<Rightarrow> Inr () | k # ks \<Rightarrow> Inl (MissingSettingsException k))"
  by (simp add: init_settings_def missing_settings_def Let_def)

lemma init_settings_defaults:
  assumes "missing_settings s = []"
  shows "snd (init_settings s) = with_defaults s"
proof -
  have r: "target_price s \<noteq> None" "spread_percentage s \<noteq> None" "volume_percentage s \<noteq> None"
     "ratio s \<noteq> None" "borrow_percentages s \<noteq> None" "minimum_amounts s \<noteq> None"
     "minimum_change_percentage s \<noteq> None"
    using assms by (simp_all add: missing_settings_Nil)
  have e: "snd (init_settings s) =
     default_skip_blocks (default_expiration (default_symmetric_sides (default_offset s)))"
    using r by (auto simp: init_settings_def Let_def)
  show ?thesis
    unfolding e by (rule settings.equality) (simp_all add: with_defaults_def)
qed

text \<open>
  C8. \<^verbatim>\<open>init\<close> raises \<^verbatim>\<open>MissingSettingsException\<close> exactly when one of the seven
  required settings is absent, and the exception names the first absent one; a
  configuration with all seven passes, and then the settings it leaves are the given
  ones with \<^verbatim>\<open>target_price_offset_percentage = 0\<close>, \<^verbatim>\<open>symmetric_sides = True\<close>,
  \<^verbatim>\<open>expiration = 86400\<close> and \<^verbatim>\<open>skip_blocks = 20\<close> filled in where the key was
  absent, and nothing else changed.
\<close>

theorem init_settings_validates:
  "fst (init_settings s) =
     (case missing_settings s of [] \<Rightarrow> Inr () | k # ks \<Rightarrow> Inl (MissingSettingsException k)) \<and>
   ((target_price s = None \<or> spread_percentage s = None \<or> volume_percentage s = None \<or>
     ratio s = None \<or> borrow_percentages s = None \<or> minimum_amounts s = None \<or>
     minimum_change_percentage s = None)
    \<longleftrightarrow> (\<exists>k \<in> set (missing_settings s). fst (init_settings s) = Inl (MissingSettingsException k))) \<and>
   (missing_settings s = [] \<longrightarrow> init_settings s = (Inr (), with_defaults s))"
proof (intro conjI impI)
  show r: "fst (init_settings s) =
     (case missing_settings s of [] \<Rightarrow> Inr () | k # ks \<Rightarrow> Inl (MissingSettingsException k))"
    by (rule init_settings_result)
  show "(target_price s = None \<or> spread_percentage s = None \<or> volume_percentage s = None \<or>
     ratio s = None \<or> borrow_percentages s = None \<or> minimum_amounts s = None \<or>
     minimum_change_percentage s = None)
    \<longleftrightarrow> (\<exists>k \<in> set (missing_settings s). fst (init_settings s) = Inl (MissingSettingsException k))"
  proof (cases "missing_settings s")
    case Nil
    then show ?thesis using missing_settings_Nil[of s] by simp
  next
    case (Cons k ks)
    then show ?thesis using missing_settings_Nil[of s] r by auto
  qed
  show "init_settings s = (Inr (), with_defaults s)" if "missing_settings s = []"
    using that r init_settings_defaults[OF that] by (simp add: prod_eq_iff)
qed

text \<open>
  A configuration without the four optional settings passes and gets the four defaults;
  the same configuration without \<^verbatim>\<open>ratio\<close> and \<^verbatim>\<open>minimum_amounts\<close> is refused
  for \<^verbatim>\<open>ratio\<close>.
\<close>

theorem init_settings_validates_witness:
  "init_settings (ex_settings\<lparr>target_price_offset_percentage := None, symmetric_sides := None,
       expiration := None, skip_blocks := None\<rparr>) =
     (Inr (), ex_settings\<lparr>target_price_offset_percentage := Some 0, symmetric_sides := Some True,
       expiration := Some 86400, skip_blocks := Some 20\<rparr>) \<and>
   missing_settings (ex_settings\<lparr>ratio := None, minimum_amounts := None\<rparr>) =
     [''ratio'', ''minimum_amounts''] \<and>
   fst (init_settings (ex_settings\<lparr>ratio := None, minimum_amounts := None\<rparr>)) =
     Inl (MissingSettingsException ''ratio'')"
proof -
  have m: "missing_settings (ex_settings\<lparr>target_price_offset_percentage := None,
       symmetric_sides := None, expiration := None, skip_blocks := None\<rparr>) = []"
    by (simp add: missing_settings_def ex_settings_def)
  have m': "missing_settings (ex_settings\<lparr>ratio := None, minimum_amounts := None\<rparr>) =
     [''ratio'', ''minimum_amounts'']"
    by (simp add: missing_settings_def ex_settings_def)
  show ?thesis
    using init_settings_validates[of "ex_settings\<lparr>target_price_offset_percentage := None,
       symmetric_sides := None, expiration := None, skip_blocks := None\<rparr>"]
      init_settings_validates[of "ex_settings\<lparr>ratio := None, minimum_amounts := None\<rparr>"]
      m m'
    by (simp add: with_defaults_def ex_settings_def)
qed

subsection \<open>The bootstrap without debt positions\<close>

lemma init_settings_calculate_bts_total:
  "calculate_bts_total (snd (init_settings s)) = calculate_bts_total s"
  by (simp add: init_settings_def Let_def)

lemma init_settings_ignores_calculate_bts_total:
  "fst (init_settings (s\<lparr>calculate_bts_total := v\<rparr>)) = fst (init_settings s)"
  by (simp add: init_settings_result missing_settings_def)

lemma get_total_bts_empty:
  assumes "debt_positions self = []" "calculate_bts_total (settings self) = None"
  shows "get_total_bts self (CDict (debt_positions self)) = Inl (KeyError ''calculate_bts_total'')"
  using assms by (simp add: get_total_bts_def setting_def)

lemma get_debt_amounts_empty:
  assumes "debt_positions self = []" "calculate_bts_total (settings self) = None"
  shows "get_debt_amounts self = Inl (KeyError ''calculate_bts_total'')"
  using get_total_bts_empty[OF assms] by (simp add: get_debt_amounts_def)

lemma place_initial_debt_positions_empty:
  assumes "debt_positions self = []" "calculate_bts_total (settings self) = None"
  shows "place_initial_debt_positions self issued = (Inl (KeyError ''calculate_bts_total''), issued)"
  using get_debt_amounts_empty[OF assms] by (simp add: place_initial_debt_positions_def)

lemma init_bootstrap:
  assumes "calculate_bts_total (settings self) = None"
    and "list_debt_positions (dex self) issued = []"
  shows "snd (snd (init self issued)) = issued"
    and "\<exists>e. fst (init self issued) = Inl e"
    and "fst (init_settings (settings self)) = Inr () \<Longrightarrow>
         markets (snd (init_settings (settings self))) = Some ms \<Longrightarrow>
         verify_markets (self\<lparr>settings := snd (init_settings (settings self))\<rparr>) ms = Inr () \<Longrightarrow>
         fst (init self issued) = Inl (KeyError ''calculate_bts_total'')"
proof -
  obtain r s where rs: "init_settings (settings self) = (r, s)"
    by (cases "init_settings (settings self)") auto
  have cs: "calculate_bts_total s = None"
    using init_settings_calculate_bts_total[of "settings self"] rs assms(1) by simp
  define self1 where "self1 = self\<lparr>settings := s\<rparr>"
  define self2 where "self2 = update_data self1 issued"
  have d2: "debt_positions self2 = []" "calculate_bts_total (settings self2) = None"
    using assms(2) cs by (simp_all add: self2_def self1_def update_data_def)
  have p: "place_initial_debt_positions self2 issued = (Inl (KeyError ''calculate_bts_total''), issued)"
    by (rule place_initial_debt_positions_empty[OF d2])
  have i: "init self issued =
     (case r of
        Inl e \<Rightarrow> (Inl e, self1, issued)
      | Inr u \<Rightarrow>
          (case setting markets ''markets'' self1 of
             Inl e \<Rightarrow> (Inl e, self1, issued)
           | Inr ms \<Rightarrow>
               (case verify_markets self1 ms of
                  Inl e \<Rightarrow> (Inl e, self1, issued)
                | Inr u \<Rightarrow> (Inl (KeyError ''calculate_bts_total''), self2, issued))))"
    using rs p d2(1)
    by (simp add: init_def self1_def[symmetric] self2_def[symmetric] Let_def
        split: sum.splits)
  show "snd (snd (init self issued)) = issued"
    unfolding i by (simp split: sum.splits)
  show "\<exists>e. fst (init self issued) = Inl e"
    unfolding i by (simp split: sum.splits)
  show "fst (init self issued) = Inl (KeyError ''calculate_bts_total'')"
    if "fst (init_settings (settings self)) = Inr ()"
      "markets (snd (init_settings (settings self))) = Some ms"
      "verify_markets (self\<lparr>settings := snd (init_settings (settings self))\<rparr>) ms = Inr ()"
    using that rs unfolding i by (simp add: self1_def setting_def)
qed

text \<open>
  C10. With no debt position in the snapshot, \<^verbatim>\<open>get_debt_amounts\<close> passes the empty
  dictionary as \<^verbatim>\<open>calculation_type\<close>, which is false in Python, so
  \<^verbatim>\<open>get_total_bts\<close> reads \<^verbatim>\<open>self.settings['calculate_bts_total']\<close>. \<^verbatim>\<open>init\<close>
  neither requires that key nor gives it a default. So for settings without the key the
  debt allocation, \<^verbatim>\<open>place_initial_debt_positions\<close> and the whole of \<^verbatim>\<open>init\<close>
  end in an exception, a \<^verbatim>\<open>KeyError\<close> for that key once the validation has passed,
  and no command has been issued by then.
\<close>

theorem bootstrap_needs_calculate_bts_total:
  "(debt_positions self = [] \<and> calculate_bts_total (settings self) = None \<longrightarrow>
      get_total_bts self (CDict (debt_positions self)) = Inl (KeyError ''calculate_bts_total'') \<and>
      get_debt_amounts self = Inl (KeyError ''calculate_bts_total'') \<and>
      place_initial_debt_positions self issued = (Inl (KeyError ''calculate_bts_total''), issued)) \<and>
   calculate_bts_total (snd (init_settings s)) = calculate_bts_total s \<and>
   fst (init_settings (s\<lparr>calculate_bts_total := v\<rparr>)) = fst (init_settings s) \<and>
   (calculate_bts_total (settings self) = None \<and> list_debt_positions (dex self) issued = [] \<longrightarrow>
      (\<exists>e. fst (init self issued) = Inl e) \<and> snd (snd (init self issued)) = issued \<and>
      (fst (init_settings (settings self)) = Inr () \<and>
       markets (snd (init_settings (settings self))) = Some ms \<and>
       verify_markets (self\<lparr>settings := snd (init_settings (settings self))\<rparr>) ms = Inr () \<longrightarrow>
       fst (init self issued) = Inl (KeyError ''calculate_bts_total'')))"
  using get_total_bts_empty[of self] get_debt_amounts_empty[of self]
    place_initial_debt_positions_empty[of self issued]
    init_settings_calculate_bts_total[of s] init_settings_ignores_calculate_bts_total[where s = s and v = v]
    init_bootstrap(1,2)[of self issued] init_bootstrap(3)[of self issued ms]
  by blast

text \<open>
  The example configuration passes the validation, its market passes the check of the
  assets, the account has no debt position: \<^verbatim>\<open>init\<close> ends in the
  \<^verbatim>\<open>KeyError\<close> with nothing borrowed.
\<close>

theorem bootstrap_needs_calculate_bts_total_witness:
  "calculate_bts_total (settings ex_bot) = None \<and> list_debt_positions (dex ex_bot) [] = [] \<and>
   fst (init_settings (settings ex_bot)) = Inr () \<and>
   verify_markets (ex_bot\<lparr>settings := snd (init_settings (settings ex_bot))\<rparr>) [''USD:BTS''] = Inr () \<and>
   fst (init ex_bot []) = Inl (KeyError ''calculate_bts_total'') \<and>
   snd (snd (init ex_bot [])) = [] \<and>
   place_initial_debt_positions (ex_bot\<lparr>debt_positions := []\<rparr>) [] =
     (Inl (KeyError ''calculate_bts_total''), [])"
proof -
  have a: "calculate_bts_total (settings ex_bot) = None"
    "list_debt_positions (dex ex_bot) [] = []"
    by (simp_all add: ex_bot_def ex_settings_def ex_dex_def)
  have m: "missing_settings (settings ex_bot) = []"
    by (simp add: missing_settings_def ex_bot_def ex_settings_def)
  have b: "fst (init_settings (settings ex_bot)) = Inr ()"
    using m by (simp add: init_settings_result)
  have s: "snd (init_settings (settings ex_bot)) = with_defaults (settings ex_bot)"
    using m by (rule init_settings_defaults)
  have c: "markets (snd (init_settings (settings ex_bot))) = Some [''USD:BTS'']"
    unfolding s by (simp add: with_defaults_def ex_bot_def ex_settings_def)
  have d: "verify_markets (ex_bot\<lparr>settings := snd (init_settings (settings ex_bot))\<rparr>)
             [''USD:BTS''] = Inr ()"
    by (simp add: ex_bot_def ex_dex_def ex_split_market)
  have e: "debt_positions (ex_bot\<lparr>debt_positions := []\<rparr>) = []"
    "calculate_bts_total (settings (ex_bot\<lparr>debt_positions := []\<rparr>)) = None"
    using a by simp_all
  show ?thesis
    using bootstrap_needs_calculate_bts_total[of ex_bot "[]" "settings ex_bot" None "[''USD:BTS'']"]
      bootstrap_needs_calculate_bts_total[of "ex_bot\<lparr>debt_positions := []\<rparr>" "[]"
        "settings ex_bot" None "[''USD:BTS'']"]
      a b c d e
    by simp
qed

subsection \<open>The debt allocation\<close>

lemma get_total_bts_value:
  assumes "debt_positions self \<noteq> [] \<or> calculate_bts_total (settings self) \<noteq> None"
    and "map_of (balances self) ''BTS'' = Some b"
  shows "get_total_bts self (CDict (debt_positions self)) =
     Inr (sum_list (map (\<lambda>(key, v). collateral v)
            (filter (\<lambda>(key, v). collateral_asset v = ''BTS'') (debt_positions self)))
          + b
          + sum_list (map order_total
              (filter (\<lambda>ord. order_type ord = ''buy'') (concat (map snd (open_orders self))))))"
  using assms
  by (auto simp: get_total_bts_def setting_def getitem_def Let_def split: option.splits)

lemma debt_amounts_loop_keeps:
  assumes "debt_amounts_loop self total_bts acc ms = Inr res"
    and "\<forall>m \<in> set ms. \<forall>base. split_market m (config_market_separator self) \<noteq> Inr (k, base)"
  shows "map_of res k = map_of acc k"
  using assms
proof (induction ms arbitrary: acc)
  case Nil
  then show ?case by simp
next
  case (Cons m ms)
  from Cons.prems(1) obtain quote base p t sp where s:
    "split_market m (config_market_separator self) = Inr (quote, base)"
    "debt_amounts_loop self total_bts (AList.update quote ((total_bts * (p / 100)) / sp) acc) ms
       = Inr res"
    by (auto split: sum.splits option.splits if_splits)
  have "quote \<noteq> k" using Cons.prems(2) s(1) by auto
  moreover have "map_of res k =
      map_of (AList.update quote ((total_bts * (p / 100)) / sp) acc) k"
    using Cons.IH[OF s(2)] Cons.prems(2) by simp
  ultimately show ?case by (simp add: update_conv')
qed

lemma debt_amounts_loop_value:
  assumes "debt_amounts_loop self total_bts acc ms = Inr res"
    and "m \<in> set ms"
    and "split_market m (config_market_separator self) = Inr (quote, base)"
    and "\<forall>m' \<in> set ms. \<forall>base'.
           split_market m' (config_market_separator self) = Inr (quote, base') \<longrightarrow> m' = m"
  shows "\<exists>bp p t sp. borrow_percentages (settings self) = Some bp \<and> map_of bp quote = Some p \<and>
           map_of (ticker self) m = Some t \<and> settlement_price t = Some sp \<and> sp \<noteq> 0 \<and>
           map_of res quote = Some ((total_bts * (p / 100)) / sp)"
  using assms
proof (induction ms arbitrary: acc)
  case Nil
  then show ?case by simp
next
  case (Cons m' ms)
  from Cons.prems(1) obtain q' b' bp p t sp where s:
    "split_market m' (config_market_separator self) = Inr (q', b')"
    "borrow_percentages (settings self) = Some bp" "map_of bp q' = Some p"
    "map_of (ticker self) m' = Some t" "settlement_price t = Some sp" "sp \<noteq> 0"
    "debt_amounts_loop self total_bts (AList.update q' ((total_bts * (p / 100)) / sp) acc) ms
       = Inr res"
    by (auto simp: setting_def getitem_def split: sum.splits option.splits if_splits)
  show ?case
  proof (cases "m \<in> set ms")
    case True
    then show ?thesis using Cons.IH[OF s(7) True Cons.prems(3)] Cons.prems(4) by simp
  next
    case False
    then have mm: "m' = m" using Cons.prems(2) by simp
    then have q: "q' = quote" using s(1) Cons.prems(3) by simp
    have "\<forall>x \<in> set ms. \<forall>base'.
            split_market x (config_market_separator self) \<noteq> Inr (quote, base')"
      using Cons.prems(4) False by auto
    then have "map_of res quote =
        map_of (AList.update q' ((total_bts * (p / 100)) / sp) acc) quote"
      using debt_amounts_loop_keeps[OF s(7)] by blast
    then show ?thesis using s mm q by (simp add: update_conv')
  qed
qed

text \<open>
  Where \<^verbatim>\<open>get_debt_amounts\<close> returns, its values are those of the specification:
  the total is the collateral held in BTS, plus the BTS balance, plus the totals of the
  open buy orders, and every market whose quote asset no other market shares gets
  \<open>total * (borrow_percentages[quote] / 100) / settlement_price\<close>.
\<close>

lemma get_debt_amounts_value:
  assumes "get_debt_amounts self = Inr amounts"
    and "markets (settings self) = Some ms" and "m \<in> set ms"
    and "split_market m (config_market_separator self) = Inr (quote, base)"
    and "\<forall>m' \<in> set ms. \<forall>base'.
           split_market m' (config_market_separator self) = Inr (quote, base') \<longrightarrow> m' = m"
  shows "\<exists>b bp p t sp. map_of (balances self) ''BTS'' = Some b \<and>
           borrow_percentages (settings self) = Some bp \<and> map_of bp quote = Some p \<and>
           map_of (ticker self) m = Some t \<and> settlement_price t = Some sp \<and> sp \<noteq> 0 \<and>
           map_of amounts quote =
             Some (((sum_list (map (\<lambda>(key, v). collateral v)
                      (filter (\<lambda>(key, v). collateral_asset v = ''BTS'') (debt_positions self)))
                    + b
                    + sum_list (map order_total
                        (filter (\<lambda>ord. order_type ord = ''buy'')
                          (concat (map snd (open_orders self))))))
                   * (p / 100)) / sp)"
proof -
  from assms(1) obtain total_bts where t:
    "get_total_bts self (CDict (debt_positions self)) = Inr total_bts"
    "debt_amounts_loop self total_bts [] ms = Inr amounts"
    using assms(2) by (auto simp: get_debt_amounts_def setting_def split: sum.splits)
  from t(1) obtain b where b: "map_of (balances self) ''BTS'' = Some b"
    "total_bts = sum_list (map (\<lambda>(key, v). collateral v)
                      (filter (\<lambda>(key, v). collateral_asset v = ''BTS'') (debt_positions self)))
                    + b
                    + sum_list (map order_total
                        (filter (\<lambda>ord. order_type ord = ''buy'')
                          (concat (map snd (open_orders self)))))"
    by (auto simp: get_total_bts_def getitem_def Let_def split: sum.splits option.splits if_splits)
  from debt_amounts_loop_value[OF t(2) assms(3) assms(4) assms(5)] b show ?thesis
    by auto
qed

lemma ex_get_debt_amounts: "get_debt_amounts ex_bot = Inr [(''USD'', 225)]"
  by (simp add: get_debt_amounts_def get_total_bts_def setting_def getitem_def ex_bot_def
      ex_settings_def ex_split_market)

text \<open>
  C9. A snapshot without debt positions, 1000 BTS of balance, no open order, a
  settlement price of 2 and 30 percent for USD: the total, as the specification defines
  it, is 1000 and the desired USD debt 150. The code raises a \<^verbatim>\<open>KeyError\<close> instead,
  because the empty dictionary of debt positions, passed as \<^verbatim>\<open>calculation_type\<close>,
  sends \<^verbatim>\<open>get_total_bts\<close> to the setting \<^verbatim>\<open>calculate_bts_total\<close>, which the
  documented configuration does not have. With that setting present, whatever its
  value, the same snapshot gives the 150 of the specification.
\<close>

theorem get_debt_amounts_empty_snapshot:
  "get_debt_amounts (ex_bot\<lparr>debt_positions := []\<rparr>) = Inl (KeyError ''calculate_bts_total'') \<and>
   get_debt_amounts (ex_bot\<lparr>debt_positions := [],
       settings := ex_settings\<lparr>calculate_bts_total := Some ''worth''\<rparr>\<rparr>) = Inr [(''USD'', 150)]"
  by (simp add: get_debt_amounts_def get_total_bts_def setting_def getitem_def ex_bot_def
      ex_settings_def ex_split_market)

subsection \<open>Adjusting debt positions\<close>

text \<open>
  The hysteresis of lines 244-248: a position is adjusted, by \<open>desired - current\<close> at the
  configured ratio, exactly when the change is at least \<^verbatim>\<open>minimum_change_percentage\<close>.
\<close>

lemma adjust_position_hysteresis:
  assumes "map_of (debt_positions self) symbol = Some position" "debt position \<noteq> 0"
    and "minimum_change_percentage (settings self) = Some minimum"
    and "ratio (settings self) = Some r"
  shows "snd (adjust_position self (symbol, amount) issued) =
     (if \<bar>amount / debt position - 1\<bar> * 100 \<ge> minimum
      then issued @ [AdjustDebt (amount - debt position) symbol r] else issued)"
  using assms
  by (simp add: adjust_position_def adjust_debt_amount_def getitem_def setting_def dex_call_def
      Let_def)

text \<open>
  C3. The example has one market and one debt position, 100 USD where 225 are desired: a
  change of 125 percent against a minimum of 10. By the claim the position is adjusted
  by 125; \<^verbatim>\<open>update_debt_positions\<close> compares the number of positions with the
  constant 3 instead of the number of markets, takes the last branch and issues nothing.
  With three positions and the same single market it does adjust.
\<close>

theorem update_debt_positions_one_market:
  "markets (settings ex_bot) = Some [''USD:BTS''] \<and> length (debt_positions ex_bot) = 1 \<and>
   get_debt_amounts ex_bot = Inr [(''USD'', 225)] \<and>
   adjust_position ex_bot (''USD'', 225) [] = (Inr (), [AdjustDebt 125 ''USD'' (5 / 2)]) \<and>
   update_debt_positions ex_bot [] = (Inr (), []) \<and>
   update_debt_positions
     (ex_bot\<lparr>debt_positions :=
        [(''USD'', \<lparr>debt = 100, collateral = 500, collateral_asset = ''BTS''\<rparr>),
         (''EUR'', \<lparr>debt = 10, collateral = 100, collateral_asset = ''BTS''\<rparr>),
         (''CNY'', \<lparr>debt = 10, collateral = 100, collateral_asset = ''BTS''\<rparr>)]\<rparr>) [] =
     (Inr (), [AdjustDebt 155 ''USD'' (5 / 2)])"
proof (intro conjI)
  show "markets (settings ex_bot) = Some [''USD:BTS'']"
    by (simp add: ex_bot_def ex_settings_def)
  show "length (debt_positions ex_bot) = 1"
    by (simp add: ex_bot_def)
  show "get_debt_amounts ex_bot = Inr [(''USD'', 225)]"
    by (rule ex_get_debt_amounts)
  show "adjust_position ex_bot (''USD'', 225) [] = (Inr (), [AdjustDebt 125 ''USD'' (5 / 2)])"
    by (simp add: adjust_position_def adjust_debt_amount_def getitem_def setting_def
        dex_call_def ex_bot_def ex_settings_def ex_dex_def)
  show "update_debt_positions ex_bot [] = (Inr (), [])"
    by (simp add: update_debt_positions_def ex_get_debt_amounts) (simp add: ex_bot_def)
  show "update_debt_positions
     (ex_bot\<lparr>debt_positions :=
        [(''USD'', \<lparr>debt = 100, collateral = 500, collateral_asset = ''BTS''\<rparr>),
         (''EUR'', \<lparr>debt = 10, collateral = 100, collateral_asset = ''BTS''\<rparr>),
         (''CNY'', \<lparr>debt = 10, collateral = 100, collateral_asset = ''BTS''\<rparr>)]\<rparr>) [] =
     (Inr (), [AdjustDebt 155 ''USD'' (5 / 2)])"
    by (simp add: update_debt_positions_def get_debt_amounts_def get_total_bts_def setting_def
        getitem_def adjust_position_def adjust_debt_amount_def dex_call_def ex_bot_def
        ex_settings_def ex_dex_def ex_split_market)
qed

subsection \<open>Prices\<close>








subsection \<open>The reconciler\<close>

lemma cancel_loop_log:
  "cancel_loop self orders issued = issued @ map (\<lambda>ord. Cancel (orderNumber ord)) orders"
  by (induction orders arbitrary: issued) (simp_all add: dex_call_def)

lemma cancel_orders_market_log:
  assumes "map_of (open_orders self) market = Some orders" "market \<noteq> ''all''"
  shows "cancel_orders self market issued =
     (Inr (), issued @ map (\<lambda>ord. Cancel (orderNumber ord)) orders)"
  using assms
  by (simp add: cancel_orders_def cancel_orders_market_def getitem_def cancel_loop_log)

lemma adds_cancel_orders_market: "adds is_cancel (cancel_orders_market self market)"
  by (auto simp: adds_def cancel_orders_market_def cancel_loop_log list_all_iff
      split: sum.splits)

lemma adds_cancel_orders_all: "adds is_cancel (cancel_orders_all depth self)"
proof (induction depth)
  case 0
  then show ?case by (simp add: adds_def)
next
  case (Suc depth)
  show ?case
  proof (cases "setting markets ''markets'' self")
    case (Inl e)
    then show ?thesis by (simp add: adds_def)
  next
    case (Inr ms)
    have "adds is_cancel
            (for_each (\<lambda>market issued'.
                if market \<noteq> ''all'' then cancel_orders_market self market issued'
                else cancel_orders_all depth self issued') ms)"
    proof (rule adds_for_each)
      fix x
      show "adds is_cancel
              (\<lambda>issued'. if x \<noteq> ''all'' then cancel_orders_market self x issued'
                else cancel_orders_all depth self issued')"
        using Suc.IH adds_cancel_orders_market[of self x]
        by (cases "x = ''all''") (simp_all add: adds_def)
    qed
    then show ?thesis using Inr by (simp add: adds_def)
  qed
qed

lemma adds_cancel_orders: "adds is_cancel (cancel_orders self market)"
  using adds_cancel_orders_all[of "recursion_limit self" self]
    adds_cancel_orders_market[of self market]
  by (simp add: adds_def cancel_orders_def)

lemma adds_place_orders_is_order: "adds is_order (place_orders self market only_sell only_buy)"
proof (rule adds_mono[OF adds_place_orders])
  fix c
  assume "placed_ok self (\<lambda>m. market \<noteq> ''all'' \<longrightarrow> m = market)
            (only_sell \<and> market \<noteq> ''all'') (only_buy \<and> market \<noteq> ''all'') c"
  then show "is_order c" by (cases c) (simp_all add: placed_ok_def)
qed

lemma adds_then:
  assumes "adds P f" and "\<And>x. adds P (g x)"
  shows "adds P (\<lambda>issued. case f issued of
                            (Inl e, issued') \<Rightarrow> (Inl e, issued')
                          | (Inr x, issued') \<Rightarrow> g x issued')"
proof (rule addsI)
  fix issued
  obtain r l where f: "f issued = (r, l)" by (cases "f issued") auto
  obtain c1 where c1: "l = issued @ c1" "list_all P c1"
    using addsD[OF assms(1), of issued] f by auto
  show "\<exists>cmds. snd (case f issued of
                            (Inl e, issued') \<Rightarrow> (Inl e, issued')
                          | (Inr x, issued') \<Rightarrow> g x issued') = issued @ cmds \<and> list_all P cmds"
  proof (cases r)
    case (Inl e)
    then show ?thesis using f c1 by auto
  next
    case (Inr x)
    obtain c2 where c2: "snd (g x l) = l @ c2" "list_all P c2"
      using addsD[OF assms(2)] by blast
    then show ?thesis using f c1 Inr by (auto intro!: exI[of _ "c1 @ c2"])
  qed
qed

lemma adds_replace_orders:
  "adds (\<lambda>c. is_cancel c \<or> is_order c) (replace_orders self market)"
proof -
  have c: "adds (\<lambda>c. is_cancel c \<or> is_order c) (cancel_orders self market)"
    by (rule adds_mono[OF adds_cancel_orders]) simp
  have p: "adds (\<lambda>c. is_cancel c \<or> is_order c) (place_orders self market False False)"
    by (rule adds_mono[OF adds_place_orders_is_order]) simp
  have p': "adds (\<lambda>c. is_cancel c \<or> is_order c)
              (\<lambda>issued. case place_orders self market False False issued of
                            (Inl e, issued') \<Rightarrow> (Inl e, issued')
                          | (Inr x, issued') \<Rightarrow> (Inr True, issued'))"
    using adds_then[OF p, of "\<lambda>x issued. (Inr True, issued)"] by (simp add: adds_def)
  have "adds (\<lambda>c. is_cancel c \<or> is_order c)
          (\<lambda>issued. case cancel_orders self market issued of
                            (Inl e, issued') \<Rightarrow> (Inl e, issued')
                          | (Inr x, issued') \<Rightarrow>
                              (case place_orders self market False False issued' of
                                 (Inl e, issued'') \<Rightarrow> (Inl e, issued'')
                               | (Inr x, issued'') \<Rightarrow> (Inr True, issued'')))"
    by (rule adds_then[OF c]) (rule p')
  then show ?thesis by (simp add: adds_def replace_orders_def)
qed

lemma replace_orders_result:
  "fst (replace_orders self market issued) \<noteq> Inr False"
  by (simp add: replace_orders_def split: prod.splits sum.splits)

text \<open>
  The loop over the orders: the first order out of the band ends it with the
  replacement; if none is, it ends with nothing done.
\<close>

lemma orders_loop_cases:
  assumes "map_of (ticker self) market = Some t" "settlement_price t = Some feed" "feed \<noteq> 0"
    and "allowed_spread_percentage (settings self) = Some allowed"
    and "spread_percentage (settings self) = Some spread"
  shows "orders_loop self market orders issued =
     (if \<exists>ord \<in> set orders. out_of_band allowed spread feed ord
      then replace_orders self market issued else (Inr False, issued))"
  using assms
  by (induction orders) (auto simp: getitem_def setting_def out_of_band_def)

lemma orders_loop_False:
  "orders_loop self market orders issued = (Inr False, issued') \<Longrightarrow> issued' = issued"
proof (induction orders)
  case Nil
  then show ?case by simp
next
  case (Cons ord orders)
  have r: "replace_orders self market issued \<noteq> (Inr False, issued')"
    using replace_orders_result[of self market issued] by auto
  from Cons.prems r have "orders_loop self market orders issued = (Inr False, issued')"
    by (auto split: sum.splits option.splits if_splits)
  then show ?case by (rule Cons.IH)
qed

lemma adds_orders_loop:
  "adds (\<lambda>c. is_cancel c \<or> is_order c) (orders_loop self market orders)"
proof (rule addsI)
  fix issued
  obtain cmds where r: "snd (replace_orders self market issued) = issued @ cmds"
    "list_all (\<lambda>c. is_cancel c \<or> is_order c) cmds"
    using addsD[OF adds_replace_orders] by blast
  show "\<exists>cmds. snd (orders_loop self market orders issued) = issued @ cmds \<and>
          list_all (\<lambda>c. is_cancel c \<or> is_order c) cmds"
  proof (induction orders)
    case Nil
    then show ?case by simp
  next
    case (Cons ord orders)
    then show ?case using r
      by (auto split: sum.splits option.splits)
  qed
qed

lemma place_missing_cases:
  "place_missing self market orders issued =
     (case orders of
        [] \<Rightarrow> place_orders self market False False issued
      | [ord] \<Rightarrow>
          if order_type ord = ''sell'' then place_orders self market False True issued
          else if order_type ord = ''buy'' then place_orders self market True False issued
          else (Inr (), issued)
      | _ \<Rightarrow> (Inr (), issued))"
  by (cases orders; cases "tl orders")
    (auto simp: place_missing_def split: prod.splits sum.splits)

lemma adds_place_missing: "adds is_order (place_missing self market orders)"
  using adds_place_orders_is_order[of self market]
  by (auto simp: adds_def place_missing_cases split: list.splits)

lemma borrow_missing_cases:
  assumes "split_market market (market_separator (dex self)) = Inr (symbol, base)"
  shows "borrow_missing self market issued =
     (if map_of (debt_positions self) symbol = None
      then (case get_debt_amounts self of
              Inl e \<Rightarrow> (Inl e, issued)
            | Inr debt_amounts \<Rightarrow>
                (case map_of debt_amounts symbol of
                   None \<Rightarrow> (Inl (KeyError symbol), issued)
                 | Some amount \<Rightarrow>
                     (case ratio (settings self) of
                        None \<Rightarrow> (Inl (KeyError ''ratio''), issued)
                      | Some r \<Rightarrow>
                          (if fails (dex self) issued (Borrow amount symbol r)
                           then Inl (DexError (Borrow amount symbol r)) else Inr False,
                           issued @ [Borrow amount symbol r]))))
      else (Inr False, issued))"
  using assms
  by (auto simp: borrow_missing_def borrow_def getitem_def setting_def dex_call_def
      split: sum.splits option.splits)

lemma adds_borrow_missing: "adds is_borrow (borrow_missing self market)"
proof (cases "split_market market (market_separator (dex self))")
  case (Inl e)
  then show ?thesis by (simp add: adds_def borrow_missing_def)
next
  case (Inr sb)
  obtain symbol base where "sb = (symbol, base)" by (cases sb) auto
  then show ?thesis using borrow_missing_cases[of market self symbol base] Inr
    by (auto simp: adds_def split: sum.splits option.splits)
qed

lemma check_and_replace_cases:
  "check_and_replace self market issued =
     (case map_of (open_orders self) market of
        None \<Rightarrow> borrow_missing self market issued
      | Some orders \<Rightarrow>
          (case place_missing self market orders issued of
             (Inl e, issued') \<Rightarrow> (Inl e, issued')
           | (Inr u, issued') \<Rightarrow>
               (case orders_loop self market orders issued' of
                  (Inl e, issued'') \<Rightarrow> (Inl e, issued'')
                | (Inr replaced, issued'') \<Rightarrow>
                    if replaced then (Inr True, issued'')
                    else borrow_missing self market issued'')))"
  by (simp add: check_and_replace_def split: option.splits prod.splits sum.splits bool.splits)

lemma replace_orders_market:
  assumes "map_of (open_orders self) market = Some orders" "market \<noteq> ''all''"
  shows "replace_orders self market issued =
     (case place_orders self market False False
             (issued @ map (\<lambda>ord. Cancel (orderNumber ord)) orders) of
        (Inl e, issued') \<Rightarrow> (Inl e, issued')
      | (Inr u, issued') \<Rightarrow> (Inr True, issued'))"
  by (simp add: replace_orders_def cancel_orders_market_log[OF assms])

lemma replace_orders_cancels:
  assumes "map_of (open_orders self) market = Some orders" "market \<noteq> ''all''"
  shows "\<exists>placed. snd (replace_orders self market issued) =
            issued @ map (\<lambda>ord. Cancel (orderNumber ord)) orders @ placed \<and>
            list_all is_order placed"
proof -
  obtain placed where p:
    "snd (place_orders self market False False
            (issued @ map (\<lambda>ord. Cancel (orderNumber ord)) orders)) =
       (issued @ map (\<lambda>ord. Cancel (orderNumber ord)) orders) @ placed"
    "list_all is_order placed"
    using addsD[OF adds_place_orders_is_order] by blast
  then show ?thesis
    by (auto simp: replace_orders_market[OF assms] split: prod.splits sum.splits)
qed

text \<open>
  C1. A market with two open orders or more, a feed price other than zero, and the two
  spreads configured. If some order is out of the band,
  \<^verbatim>\<open>check_and_replace\<close> cancels every open order of the market, each once, calls
  \<^verbatim>\<open>place_orders\<close> for both sides once and returns \<^verbatim>\<open>True\<close>, however many orders
  are out of the band and whatever comes after the first of them. If no order is out
  of the band it cancels and places nothing (all it may still do is borrow), and so does a
  second run on the same snapshot.
\<close>

theorem two_sided_orders_replaced_iff_out_of_band:
  assumes "map_of (open_orders self) market = Some orders" "2 \<le> length orders"
    and "market \<noteq> ''all''"
    and "map_of (ticker self) market = Some t" "settlement_price t = Some feed" "feed \<noteq> 0"
    and "allowed_spread_percentage (settings self) = Some allowed"
    and "spread_percentage (settings self) = Some spread"
  shows
   "((\<exists>ord \<in> set orders. out_of_band allowed spread feed ord) \<longrightarrow>
       check_and_replace self market issued =
         (case place_orders self market False False
                 (issued @ map (\<lambda>ord. Cancel (orderNumber ord)) orders) of
            (Inl e, issued') \<Rightarrow> (Inl e, issued')
          | (Inr u, issued') \<Rightarrow> (Inr True, issued'))) \<and>
    (\<not> (\<exists>ord \<in> set orders. out_of_band allowed spread feed ord) \<longrightarrow>
       check_and_replace self market issued = borrow_missing self market issued) \<and>
    ((\<exists>ord \<in> set orders. out_of_band allowed spread feed ord) \<longleftrightarrow>
       (\<exists>c \<in> set (drop (length issued) (snd (check_and_replace self market issued))).
           is_cancel c \<or> is_order c)) \<and>
    (\<forall>pre ord rest. orders = pre @ ord # rest \<and> out_of_band allowed spread feed ord \<longrightarrow>
       orders_loop self market orders issued = orders_loop self market (pre @ [ord]) issued) \<and>
    ((\<forall>ord \<in> set orders. allowed / 2 < order_feed_spread ord feed \<and>
                         order_feed_spread ord feed < (allowed + spread) / 2) \<longrightarrow>
       (\<forall>c \<in> set (drop (length issued)
                    (snd (check_and_replace self market
                            (snd (check_and_replace self market issued))))).
           is_borrow c))"
proof -
  note loop = orders_loop_cases[OF assms(4-8)]
  have pm: "place_missing self market orders i = (Inr (), i)" for i
    using assms(2) by (cases orders; cases "tl orders") (auto simp: place_missing_cases)
  have car: "check_and_replace self market i =
      (if \<exists>ord \<in> set orders. out_of_band allowed spread feed ord
       then replace_orders self market i else borrow_missing self market i)" for i
  proof (cases "\<exists>ord \<in> set orders. out_of_band allowed spread feed ord")
    case True
    obtain r l where rl: "replace_orders self market i = (r, l)"
      by (cases "replace_orders self market i") auto
    have "r \<noteq> Inr False" using replace_orders_result[of self market i] rl by simp
    then have "r = Inr True \<or> (\<exists>e. r = Inl e)" by (cases r) auto
    then show ?thesis using True rl
      by (auto simp: check_and_replace_cases assms(1) pm loop)
  next
    case False
    then show ?thesis by (simp add: check_and_replace_cases assms(1) pm loop)
  qed
  have borrow_only: "\<forall>c \<in> set (drop (length i) (snd (borrow_missing self market i))). is_borrow c"
    for i
    using addsD[OF adds_borrow_missing, of self market i] by (auto simp: list_all_iff)
  have a: "(\<exists>ord \<in> set orders. out_of_band allowed spread feed ord) \<longrightarrow>
       check_and_replace self market issued =
         (case place_orders self market False False
                 (issued @ map (\<lambda>ord. Cancel (orderNumber ord)) orders) of
            (Inl e, issued') \<Rightarrow> (Inl e, issued')
          | (Inr u, issued') \<Rightarrow> (Inr True, issued'))"
    by (simp add: car replace_orders_market[OF assms(1) assms(3)])
  have b: "\<not> (\<exists>ord \<in> set orders. out_of_band allowed spread feed ord) \<longrightarrow>
       check_and_replace self market issued = borrow_missing self market issued"
    by (simp add: car)
  have c: "(\<exists>ord \<in> set orders. out_of_band allowed spread feed ord) \<longleftrightarrow>
       (\<exists>c \<in> set (drop (length issued) (snd (check_and_replace self market issued))).
           is_cancel c \<or> is_order c)"
  proof (cases "\<exists>ord \<in> set orders. out_of_band allowed spread feed ord")
    case True
    obtain placed where p: "snd (replace_orders self market issued) =
            issued @ map (\<lambda>ord. Cancel (orderNumber ord)) orders @ placed"
      using replace_orders_cancels[OF assms(1) assms(3)] by blast
    obtain ord rest where o: "orders = ord # rest" using assms(2) by (cases orders) auto
    have "is_cancel (Cancel (orderNumber ord))" by simp
    then show ?thesis using True p o by (auto simp: car)
  next
    case False
    have "\<not> (is_cancel c \<or> is_order c)" if "is_borrow c" for c
      using that by (cases c) auto
    then show ?thesis using False borrow_only[of issued] by (auto simp: car)
  qed
  have d: "\<forall>pre ord rest. orders = pre @ ord # rest \<and> out_of_band allowed spread feed ord \<longrightarrow>
       orders_loop self market orders issued = orders_loop self market (pre @ [ord]) issued"
    by (auto simp: orders_loop_cases[OF assms(4-8)])
  have e: "(\<forall>ord \<in> set orders. allowed / 2 < order_feed_spread ord feed \<and>
                         order_feed_spread ord feed < (allowed + spread) / 2) \<longrightarrow>
       (\<forall>c \<in> set (drop (length issued)
                    (snd (check_and_replace self market
                            (snd (check_and_replace self market issued))))).
           is_borrow c)"
  proof
    assume h: "\<forall>ord \<in> set orders. allowed / 2 < order_feed_spread ord feed \<and>
                         order_feed_spread ord feed < (allowed + spread) / 2"
    then have n: "\<not> (\<exists>ord \<in> set orders. out_of_band allowed spread feed ord)"
      by (auto simp: out_of_band_def)
    obtain b1 where b1: "snd (borrow_missing self market issued) = issued @ b1"
      "list_all is_borrow b1"
      using addsD[OF adds_borrow_missing] by blast
    obtain b2 where b2: "snd (borrow_missing self market (issued @ b1)) = (issued @ b1) @ b2"
      "list_all is_borrow b2"
      using addsD[OF adds_borrow_missing] by blast
    show "\<forall>c \<in> set (drop (length issued)
                    (snd (check_and_replace self market
                            (snd (check_and_replace self market issued))))).
           is_borrow c"
      using n b1 b2 by (auto simp: car list_all_iff)
  qed
  from a b c d e show ?thesis by blast
qed

lemma ex_place_orders_at:
  "place_orders (ex_bot\<lparr>open_orders := oo, debt_positions := dp\<rparr>) ''USD:BTS'' False False issued =
     (Inr (), issued @ [Sell ''USD:BTS'' (7573436092121087 / 70368744177664) (800 / 819),
                        Buy ''USD:BTS'' (819 / 8) (800 / 819)])"
  "place_orders (ex_bot\<lparr>open_orders := oo, debt_positions := dp\<rparr>) ''USD:BTS'' False True issued =
     (Inr (), issued @ [Buy ''USD:BTS'' (819 / 8) (800 / 819)])"
  "place_orders (ex_bot\<lparr>open_orders := oo, debt_positions := dp\<rparr>) ''USD:BTS'' True False issued =
     (Inr (), issued @ [Sell ''USD:BTS'' (7573436092121087 / 70368744177664) 5])"
  by (simp_all add: place_orders_def place_orders_market_def order_prices_def ex_bot_def ex_dex_def
      ex_settings_def setting_def ex_split_market getitem_def base_price_of_def sell_side_def
      buy_side_def minimum_amount_def sell_def buy_def dex_call_def ex_fl)

lemma ex_bot_fields:
  "map_of (ticker (ex_bot\<lparr>open_orders := oo, debt_positions := dp\<rparr>)) ''USD:BTS'' =
     Some \<lparr>settlement_price = Some 2\<rparr>"
  "allowed_spread_percentage (settings (ex_bot\<lparr>open_orders := oo, debt_positions := dp\<rparr>)) =
     Some (5 / 2)"
  "spread_percentage (settings (ex_bot\<lparr>open_orders := oo, debt_positions := dp\<rparr>)) = Some 5"
  "ratio (settings (ex_bot\<lparr>open_orders := oo, debt_positions := dp\<rparr>)) = Some (5 / 2)"
  "market_separator (dex (ex_bot\<lparr>open_orders := oo, debt_positions := dp\<rparr>)) = '':''"
  "open_orders (ex_bot\<lparr>open_orders := oo, debt_positions := dp\<rparr>) = oo"
  "debt_positions (ex_bot\<lparr>open_orders := oo, debt_positions := dp\<rparr>) = dp"
  by (simp_all add: ex_bot_def ex_settings_def ex_dex_def)

lemma ex_borrow_missing_held:
  "borrow_missing
     (ex_bot\<lparr>open_orders := oo,
        debt_positions := [(''USD'', \<lparr>debt = 100, collateral = 500, collateral_asset = ''BTS''\<rparr>)]\<rparr>)
     ''USD:BTS'' issued = (Inr False, issued)"
  by (simp add: borrow_missing_def ex_bot_def ex_dex_def ex_split_market)

theorem two_sided_orders_replaced_iff_out_of_band_witness:
  "out_of_band (5 / 2) 5 2
     \<lparr>orderNumber = ''1.7.2'', order_type = ''buy'', rate = 99 / 50, order_total = 1\<rparr> \<and>
   \<not> out_of_band (5 / 2) 5 2
     \<lparr>orderNumber = ''1.7.1'', order_type = ''sell'', rate = 51 / 25, order_total = 1\<rparr> \<and>
   out_of_band (5 / 2) 5 2
     \<lparr>orderNumber = ''1.7.3'', order_type = ''sell'', rate = 52 / 25, order_total = 1\<rparr> \<and>
   check_and_replace
     (ex_bot\<lparr>open_orders := [(''USD:BTS'',
         [\<lparr>orderNumber = ''1.7.1'', order_type = ''sell'', rate = 51 / 25, order_total = 1\<rparr>,
          \<lparr>orderNumber = ''1.7.2'', order_type = ''buy'', rate = 99 / 50, order_total = 1\<rparr>,
          \<lparr>orderNumber = ''1.7.3'', order_type = ''sell'', rate = 52 / 25, order_total = 1\<rparr>])],
        debt_positions :=
          [(''USD'', \<lparr>debt = 100, collateral = 500, collateral_asset = ''BTS''\<rparr>)]\<rparr>)
     ''USD:BTS'' [] =
     (Inr True, [Cancel ''1.7.1'', Cancel ''1.7.2'', Cancel ''1.7.3'',
                 Sell ''USD:BTS'' (7573436092121087 / 70368744177664) (800 / 819), Buy ''USD:BTS'' (819 / 8) (800 / 819)]) \<and>
   check_and_replace
     (ex_bot\<lparr>open_orders := [(''USD:BTS'',
         [\<lparr>orderNumber = ''1.7.1'', order_type = ''sell'', rate = 51 / 25, order_total = 1\<rparr>,
          \<lparr>orderNumber = ''1.7.4'', order_type = ''buy'', rate = 49 / 25, order_total = 1\<rparr>])],
        debt_positions :=
          [(''USD'', \<lparr>debt = 100, collateral = 500, collateral_asset = ''BTS''\<rparr>)]\<rparr>)
     ''USD:BTS'' [] = (Inr False, [])"
proof -
  define o1 where "o1 = \<lparr>orderNumber = ''1.7.1'', order_type = ''sell'', rate = 51 / 25,
    order_total = (1::real)\<rparr>"
  define o2 where "o2 = \<lparr>orderNumber = ''1.7.2'', order_type = ''buy'', rate = 99 / 50,
    order_total = (1::real)\<rparr>"
  define o3 where "o3 = \<lparr>orderNumber = ''1.7.3'', order_type = ''sell'', rate = 52 / 25,
    order_total = (1::real)\<rparr>"
  define o4 where "o4 = \<lparr>orderNumber = ''1.7.4'', order_type = ''buy'', rate = 49 / 25,
    order_total = (1::real)\<rparr>"
  define dp where
    "dp = [(''USD'', \<lparr>debt = (100::real), collateral = 500, collateral_asset = ''BTS''\<rparr>)]"
  have band: "out_of_band (5 / 2) 5 2 o2" "\<not> out_of_band (5 / 2) 5 2 o1"
    "out_of_band (5 / 2) 5 2 o3" "\<not> out_of_band (5 / 2) 5 2 o4"
    by (simp_all add: out_of_band_def order_feed_spread_def o1_def o2_def o3_def o4_def)
  have m: "''USD:BTS'' \<noteq> ''all''" by simp
  have s: "settlement_price \<lparr>settlement_price = Some (2::real)\<rparr> = Some 2" "(2::real) \<noteq> 0"
    by simp_all
  have a: "map_of (open_orders (ex_bot\<lparr>open_orders := [(''USD:BTS'', [o1, o2, o3])],
      debt_positions := dp\<rparr>)) ''USD:BTS'' = Some [o1, o2, o3]" "2 \<le> length [o1, o2, o3]"
    by (simp_all add: ex_bot_fields)
  have b: "map_of (open_orders (ex_bot\<lparr>open_orders := [(''USD:BTS'', [o1, o4])],
      debt_positions := dp\<rparr>)) ''USD:BTS'' = Some [o1, o4]" "2 \<le> length [o1, o4]"
    by (simp_all add: ex_bot_fields)
  have c1: "check_and_replace (ex_bot\<lparr>open_orders := [(''USD:BTS'', [o1, o2, o3])],
      debt_positions := dp\<rparr>) ''USD:BTS'' [] =
     (Inr True, [Cancel ''1.7.1'', Cancel ''1.7.2'', Cancel ''1.7.3'',
                 Sell ''USD:BTS'' (7573436092121087 / 70368744177664) (800 / 819), Buy ''USD:BTS'' (819 / 8) (800 / 819)])"
    using two_sided_orders_replaced_iff_out_of_band[OF a m ex_bot_fields(1) s ex_bot_fields(2,3),
        where issued = "[]"] band
    by (simp add: ex_place_orders_at) (simp add: o1_def o2_def o3_def)
  have c2: "check_and_replace (ex_bot\<lparr>open_orders := [(''USD:BTS'', [o1, o4])],
      debt_positions := dp\<rparr>) ''USD:BTS'' [] = (Inr False, [])"
    using two_sided_orders_replaced_iff_out_of_band[OF b m ex_bot_fields(1) s ex_bot_fields(2,3),
        where issued = "[]"] band
    by (simp add: dp_def ex_borrow_missing_held)
  from band c1 c2 show ?thesis
    unfolding o1_def o2_def o3_def o4_def dp_def by simp
qed

subsection \<open>Borrowing for a market without a debt position\<close>

lemma borrow_missing_borrows:
  assumes "split_market market (market_separator (dex self)) = Inr (symbol, base)"
    and "map_of (debt_positions self) symbol = None"
    and "get_debt_amounts self = Inr debt_amounts" "map_of debt_amounts symbol = Some amount"
    and "ratio (settings self) = Some r"
  shows "borrow_missing self market issued =
     (if fails (dex self) issued (Borrow amount symbol r)
      then Inl (DexError (Borrow amount symbol r)) else Inr False,
      issued @ [Borrow amount symbol r])"
  using assms(2-) by (simp add: borrow_missing_cases[OF assms(1)])

lemma check_and_replace_no_orders:
  assumes "map_of (open_orders self) market = Some []"
  shows "check_and_replace self market issued =
     (case place_orders self market False False issued of
        (Inl e, issued') \<Rightarrow> (Inl e, issued')
      | (Inr u, issued') \<Rightarrow> borrow_missing self market issued')"
  by (simp add: check_and_replace_cases assms place_missing_cases split: prod.splits sum.splits)

lemma ex_get_debt_amounts_other:
  "get_debt_amounts (ex_bot\<lparr>open_orders := [(''USD:BTS'', [])],
      debt_positions := [(''CNY'', \<lparr>debt = 10, collateral = 100, collateral_asset = ''BTS''\<rparr>)]\<rparr>) =
     Inr [(''USD'', 165)]"
  by (simp add: get_debt_amounts_def get_total_bts_def setting_def getitem_def ex_bot_def
      ex_settings_def ex_split_market)

lemma ex_split_market_dex:
  "split_market ''USD:BTS'' (market_separator (dex (ex_bot\<lparr>open_orders := oo,
      debt_positions := dp\<rparr>))) = Inr (''USD'', ''BTS'')"
  by (simp add: ex_bot_def ex_dex_def ex_split_market)

lemma ex_fails: "fails (dex ex_bot) issued c = False"
  by (simp add: ex_bot_def ex_dex_def)

lemma ex_borrow_missing_other:
  "borrow_missing (ex_bot\<lparr>open_orders := [(''USD:BTS'', [])],
      debt_positions := [(''CNY'', \<lparr>debt = 10, collateral = 100, collateral_asset = ''BTS''\<rparr>)]\<rparr>)
     ''USD:BTS'' issued = (Inr False, issued @ [Borrow 165 ''USD'' (5 / 2)])"
  using borrow_missing_borrows[OF ex_split_market_dex _ ex_get_debt_amounts_other _ ex_bot_fields(4),
      of "165" issued]
  by (simp add: ex_fails)

text \<open>
  C4, as claimed, fails. The docstring's configuration, no open order in
  \<^verbatim>\<open>USD:BTS\<close> and a debt position in another asset only: in one call
  \<^verbatim>\<open>check_and_replace\<close> places a sell and a buy order in the market and then borrows
  USD. With orders out of the band it cancels and places orders and does not borrow at all.
\<close>

theorem debt_gating_counterexample:
  "map_of [(''CNY'', \<lparr>debt = 10::real, collateral = 100::real, collateral_asset = ''BTS''\<rparr>)]
     ''USD'' = None \<and>
   check_and_replace
     (ex_bot\<lparr>open_orders := [(''USD:BTS'', [])],
        debt_positions :=
          [(''CNY'', \<lparr>debt = 10, collateral = 100, collateral_asset = ''BTS''\<rparr>)]\<rparr>)
     ''USD:BTS'' [] =
     (Inr False, [Sell ''USD:BTS'' (7573436092121087 / 70368744177664) (800 / 819), Buy ''USD:BTS'' (819 / 8) (800 / 819),
                  Borrow 165 ''USD'' (5 / 2)]) \<and>
   check_and_replace
     (ex_bot\<lparr>open_orders := [(''USD:BTS'',
         [\<lparr>orderNumber = ''1.7.1'', order_type = ''sell'', rate = 51 / 25, order_total = 1\<rparr>,
          \<lparr>orderNumber = ''1.7.2'', order_type = ''buy'', rate = 99 / 50, order_total = 1\<rparr>])],
        debt_positions :=
          [(''CNY'', \<lparr>debt = 10, collateral = 100, collateral_asset = ''BTS''\<rparr>)]\<rparr>)
     ''USD:BTS'' [] =
     (Inr True, [Cancel ''1.7.1'', Cancel ''1.7.2'',
                 Sell ''USD:BTS'' (7573436092121087 / 70368744177664) (800 / 819), Buy ''USD:BTS'' (819 / 8) (800 / 819)])"
proof -
  define o1 where "o1 = \<lparr>orderNumber = ''1.7.1'', order_type = ''sell'', rate = 51 / 25,
    order_total = (1::real)\<rparr>"
  define o2 where "o2 = \<lparr>orderNumber = ''1.7.2'', order_type = ''buy'', rate = 99 / 50,
    order_total = (1::real)\<rparr>"
  define dp where
    "dp = [(''CNY'', \<lparr>debt = (10::real), collateral = (100::real), collateral_asset = ''BTS''\<rparr>)]"
  have a: "map_of dp ''USD'' = None" by (simp add: dp_def)
  have b: "check_and_replace (ex_bot\<lparr>open_orders := [(''USD:BTS'', [])], debt_positions := dp\<rparr>)
      ''USD:BTS'' [] =
     (Inr False, [Sell ''USD:BTS'' (7573436092121087 / 70368744177664) (800 / 819), Buy ''USD:BTS'' (819 / 8) (800 / 819),
                  Borrow 165 ''USD'' (5 / 2)])"
    unfolding dp_def
    by (simp add: check_and_replace_no_orders ex_place_orders_at ex_borrow_missing_other)
  have band: "out_of_band (5 / 2) 5 2 o2"
    by (simp add: out_of_band_def order_feed_spread_def o2_def)
  have s: "settlement_price \<lparr>settlement_price = Some (2::real)\<rparr> = Some 2" "(2::real) \<noteq> 0"
    by simp_all
  have oo: "map_of (open_orders (ex_bot\<lparr>open_orders := [(''USD:BTS'', [o1, o2])],
      debt_positions := dp\<rparr>)) ''USD:BTS'' = Some [o1, o2]"
    by simp
  have m: "''USD:BTS'' \<noteq> ''all''" by simp
  have loop: "orders_loop (ex_bot\<lparr>open_orders := [(''USD:BTS'', [o1, o2])],
      debt_positions := dp\<rparr>) ''USD:BTS'' [o1, o2] [] =
     (Inr True, [Cancel ''1.7.1'', Cancel ''1.7.2'',
                 Sell ''USD:BTS'' (7573436092121087 / 70368744177664) (800 / 819), Buy ''USD:BTS'' (819 / 8) (800 / 819)])"
    using band
    by (simp add: orders_loop_cases[OF ex_bot_fields(1) s ex_bot_fields(2,3)]
        replace_orders_market[OF oo m] ex_place_orders_at del: orders_loop.simps)
      (simp add: o1_def o2_def)
  have c: "check_and_replace (ex_bot\<lparr>open_orders := [(''USD:BTS'', [o1, o2])],
      debt_positions := dp\<rparr>) ''USD:BTS'' [] =
     (Inr True, [Cancel ''1.7.1'', Cancel ''1.7.2'',
                 Sell ''USD:BTS'' (7573436092121087 / 70368744177664) (800 / 819), Buy ''USD:BTS'' (819 / 8) (800 / 819)])"
    by (simp add: check_and_replace_cases place_missing_cases loop del: orders_loop.simps)
  from a b c show ?thesis unfolding o1_def o2_def dp_def by simp
qed

lemma borrow_missing_result: "fst (borrow_missing self market issued) \<noteq> Inr True"
  by (simp add: borrow_missing_def borrow_def dex_call_def
      split: sum.splits prod.splits option.splits if_splits)

lemma check_and_replace_shape:
  "\<exists>handled. list_all (\<lambda>c. is_cancel c \<or> is_order c) handled \<and>
     ((\<exists>r. r \<noteq> Inr False \<and> check_and_replace self market issued = (r, issued @ handled)) \<or>
      (list_all is_order handled \<and>
       check_and_replace self market issued = borrow_missing self market (issued @ handled)))"
proof (cases "map_of (open_orders self) market")
  case None
  then have "check_and_replace self market issued = borrow_missing self market (issued @ [])"
    by (simp add: check_and_replace_cases)
  then show ?thesis by (intro exI[of _ "[]"]) simp
next
  case (Some orders)
  obtain r1 i1 where pm: "place_missing self market orders issued = (r1, i1)"
    by (cases "place_missing self market orders issued") auto
  obtain p1 where p1: "i1 = issued @ p1" "list_all is_order p1"
    using addsD[OF adds_place_missing, of self market orders issued] pm by auto
  have p1': "list_all (\<lambda>c. is_cancel c \<or> is_order c) p1"
    using p1(2) by (auto simp: list_all_iff)
  show ?thesis
  proof (cases r1)
    case (Inl e)
    then have "check_and_replace self market issued = (Inl e, issued @ p1)"
      using Some pm p1(1) by (simp add: check_and_replace_cases)
    then show ?thesis using p1' by (intro exI[of _ p1]) auto
  next
    case (Inr u)
    obtain r2 i2 where ol: "orders_loop self market orders i1 = (r2, i2)"
      by (cases "orders_loop self market orders i1") auto
    obtain p2 where p2: "i2 = i1 @ p2" "list_all (\<lambda>c. is_cancel c \<or> is_order c) p2"
      using addsD[OF adds_orders_loop, of self market orders i1] ol by auto
    have p12: "list_all (\<lambda>c. is_cancel c \<or> is_order c) (p1 @ p2)"
      using p1' p2(2) by simp
    show ?thesis
    proof (cases r2)
      case (Inl e)
      then have "check_and_replace self market issued = (Inl e, issued @ p1 @ p2)"
        using Some pm Inr ol p1(1) p2(1) by (simp add: check_and_replace_cases)
      then show ?thesis using p12 by (intro exI[of _ "p1 @ p2"]) auto
    next
      case r2: (Inr replaced)
      show ?thesis
      proof (cases replaced)
        case True
        then have "check_and_replace self market issued = (Inr True, issued @ p1 @ p2)"
          using Some pm Inr ol r2 p1(1) p2(1) by (simp add: check_and_replace_cases)
        then show ?thesis using p12 by (intro exI[of _ "p1 @ p2"]) auto
      next
        case False
        then have "orders_loop self market orders i1 = (Inr False, i2)"
          using ol r2 by simp
        then have "i2 = i1" by (rule orders_loop_False)
        then have "check_and_replace self market issued = borrow_missing self market (issued @ p1)"
          using Some pm Inr ol r2 False p1(1) by (simp add: check_and_replace_cases)
        then show ?thesis using p1' p1(2) by (intro exI[of _ p1]) auto
      qed
    qed
  qed
qed

lemma ex_borrow_missing_none:
  "borrow_missing (ex_bot\<lparr>open_orders := oo, debt_positions := []\<rparr>) ''USD:BTS'' issued =
     (Inl (KeyError ''calculate_bts_total''), issued)"
proof -
  have "get_debt_amounts (ex_bot\<lparr>open_orders := oo, debt_positions := []\<rparr>) =
      Inl (KeyError ''calculate_bts_total'')"
    by (rule get_debt_amounts_empty) (simp_all add: ex_bot_def ex_settings_def)
  then show ?thesis by (simp add: borrow_missing_cases[OF ex_split_market_dex])
qed

text \<open>
  C4, amended. A market whose quote asset has no debt position. The debt check comes
  after the handling of the market's orders and does not hold it back: with no open order
  \<^verbatim>\<open>check_and_replace\<close> places both sides first. When it returns \<^verbatim>\<open>True\<close> (orders
  replaced) it has not borrowed. When it returns \<^verbatim>\<open>False\<close>, \<^verbatim>\<open>get_debt_amounts\<close> has
  returned an amount for the quote asset and one borrow command has been issued, for
  that asset, of that amount, at the configured ratio, after whatever orders were placed.
  When \<^verbatim>\<open>get_debt_amounts\<close> raises, the exception leaves \<^verbatim>\<open>check_and_replace\<close> after
  the orders were handled and nothing is borrowed; that is what happens on a snapshot
  with no debt position at all when \<^verbatim>\<open>calculate_bts_total\<close> is not configured.
\<close>

theorem borrow_follows_order_handling:
  assumes "split_market market (market_separator (dex self)) = Inr (symbol, base)"
    and "map_of (debt_positions self) symbol = None"
  shows
   "borrow_missing self market issued =
      (case get_debt_amounts self of
         Inl e \<Rightarrow> (Inl e, issued)
       | Inr debt_amounts \<Rightarrow>
           (case map_of debt_amounts symbol of
              None \<Rightarrow> (Inl (KeyError symbol), issued)
            | Some amount \<Rightarrow>
                (case ratio (settings self) of
                   None \<Rightarrow> (Inl (KeyError ''ratio''), issued)
                 | Some r \<Rightarrow>
                     (if fails (dex self) issued (Borrow amount symbol r)
                      then Inl (DexError (Borrow amount symbol r)) else Inr False,
                      issued @ [Borrow amount symbol r])))) \<and>
    (map_of (open_orders self) market = None \<longrightarrow>
       check_and_replace self market issued = borrow_missing self market issued) \<and>
    (map_of (open_orders self) market = Some [] \<longrightarrow>
       check_and_replace self market issued =
         (case place_orders self market False False issued of
            (Inl e, issued') \<Rightarrow> (Inl e, issued')
          | (Inr u, issued') \<Rightarrow> borrow_missing self market issued')) \<and>
    (fst (check_and_replace self market issued) = Inr False \<longrightarrow>
       (\<exists>placed debt_amounts amount r.
          get_debt_amounts self = Inr debt_amounts \<and> map_of debt_amounts symbol = Some amount \<and>
          ratio (settings self) = Some r \<and> list_all is_order placed \<and>
          snd (check_and_replace self market issued) =
            issued @ placed @ [Borrow amount symbol r])) \<and>
    (fst (check_and_replace self market issued) = Inr True \<longrightarrow>
       (\<exists>handled. list_all (\<lambda>c. is_cancel c \<or> is_order c) handled \<and>
          snd (check_and_replace self market issued) = issued @ handled)) \<and>
    (\<forall>e. get_debt_amounts self = Inl e \<longrightarrow>
       fst (check_and_replace self market issued) \<noteq> Inr False \<and>
       (\<exists>handled. list_all (\<lambda>c. is_cancel c \<or> is_order c) handled \<and>
          snd (check_and_replace self market issued) = issued @ handled)) \<and>
    (debt_positions self = [] \<and> calculate_bts_total (settings self) = None \<and>
     map_of (open_orders self) market = Some [] \<longrightarrow>
       check_and_replace self market issued =
         (case place_orders self market False False issued of
            (Inl e, issued') \<Rightarrow> (Inl e, issued')
          | (Inr u, issued') \<Rightarrow> (Inl (KeyError ''calculate_bts_total''), issued')))"
proof -
  have bm: "borrow_missing self market i =
      (case get_debt_amounts self of
         Inl e \<Rightarrow> (Inl e, i)
       | Inr debt_amounts \<Rightarrow>
           (case map_of debt_amounts symbol of
              None \<Rightarrow> (Inl (KeyError symbol), i)
            | Some amount \<Rightarrow>
                (case ratio (settings self) of
                   None \<Rightarrow> (Inl (KeyError ''ratio''), i)
                 | Some r \<Rightarrow>
                     (if fails (dex self) i (Borrow amount symbol r)
                      then Inl (DexError (Borrow amount symbol r)) else Inr False,
                      i @ [Borrow amount symbol r]))))" for i
    using assms(2) by (simp add: borrow_missing_cases[OF assms(1)])
  obtain handled where h: "list_all (\<lambda>c. is_cancel c \<or> is_order c) handled"
    and sh: "(\<exists>r. r \<noteq> Inr False \<and> check_and_replace self market issued = (r, issued @ handled)) \<or>
      (list_all is_order handled \<and>
       check_and_replace self market issued = borrow_missing self market (issued @ handled))"
    using check_and_replace_shape[of self market issued] by blast
  have b: "map_of (open_orders self) market = None \<longrightarrow>
       check_and_replace self market issued = borrow_missing self market issued"
    by (simp add: check_and_replace_cases)
  have c: "map_of (open_orders self) market = Some [] \<longrightarrow>
       check_and_replace self market issued =
         (case place_orders self market False False issued of
            (Inl e, issued') \<Rightarrow> (Inl e, issued')
          | (Inr u, issued') \<Rightarrow> borrow_missing self market issued')"
    by (simp add: check_and_replace_no_orders)
  have d: "fst (check_and_replace self market issued) = Inr False \<longrightarrow>
       (\<exists>placed debt_amounts amount r.
          get_debt_amounts self = Inr debt_amounts \<and> map_of debt_amounts symbol = Some amount \<and>
          ratio (settings self) = Some r \<and> list_all is_order placed \<and>
          snd (check_and_replace self market issued) =
            issued @ placed @ [Borrow amount symbol r])"
  proof
    assume f: "fst (check_and_replace self market issued) = Inr False"
    with sh have o: "list_all is_order handled"
      and e: "check_and_replace self market issued = borrow_missing self market (issued @ handled)"
      by auto
    from f e have "fst (borrow_missing self market (issued @ handled)) = Inr False" by simp
    then obtain debt_amounts amount r where
      "get_debt_amounts self = Inr debt_amounts" "map_of debt_amounts symbol = Some amount"
      "ratio (settings self) = Some r"
      "snd (borrow_missing self market (issued @ handled)) =
         (issued @ handled) @ [Borrow amount symbol r]"
      unfolding bm by (auto split: sum.splits option.splits if_splits)
    then show "\<exists>placed debt_amounts amount r.
          get_debt_amounts self = Inr debt_amounts \<and> map_of debt_amounts symbol = Some amount \<and>
          ratio (settings self) = Some r \<and> list_all is_order placed \<and>
          snd (check_and_replace self market issued) =
            issued @ placed @ [Borrow amount symbol r]"
      using o e by auto
  qed
  have e: "fst (check_and_replace self market issued) = Inr True \<longrightarrow>
       (\<exists>handled. list_all (\<lambda>c. is_cancel c \<or> is_order c) handled \<and>
          snd (check_and_replace self market issued) = issued @ handled)"
    using sh h borrow_missing_result[of self market "issued @ handled"] by auto
  have f: "\<forall>e. get_debt_amounts self = Inl e \<longrightarrow>
       fst (check_and_replace self market issued) \<noteq> Inr False \<and>
       (\<exists>handled. list_all (\<lambda>c. is_cancel c \<or> is_order c) handled \<and>
          snd (check_and_replace self market issued) = issued @ handled)"
  proof (intro allI impI)
    fix e
    assume g: "get_debt_amounts self = Inl e"
    then have "borrow_missing self market (issued @ handled) = (Inl e, issued @ handled)"
      by (simp add: bm)
    then show "fst (check_and_replace self market issued) \<noteq> Inr False \<and>
       (\<exists>handled. list_all (\<lambda>c. is_cancel c \<or> is_order c) handled \<and>
          snd (check_and_replace self market issued) = issued @ handled)"
      using sh h by auto
  qed
  have g: "debt_positions self = [] \<and> calculate_bts_total (settings self) = None \<and>
     map_of (open_orders self) market = Some [] \<longrightarrow>
       check_and_replace self market issued =
         (case place_orders self market False False issued of
            (Inl e, issued') \<Rightarrow> (Inl e, issued')
          | (Inr u, issued') \<Rightarrow> (Inl (KeyError ''calculate_bts_total''), issued'))"
  proof
    assume a: "debt_positions self = [] \<and> calculate_bts_total (settings self) = None \<and>
     map_of (open_orders self) market = Some []"
    then have "get_debt_amounts self = Inl (KeyError ''calculate_bts_total'')"
      by (intro get_debt_amounts_empty) simp_all
    then have "borrow_missing self market i = (Inl (KeyError ''calculate_bts_total''), i)" for i
      by (simp add: bm)
    then show "check_and_replace self market issued =
         (case place_orders self market False False issued of
            (Inl e, issued') \<Rightarrow> (Inl e, issued')
          | (Inr u, issued') \<Rightarrow> (Inl (KeyError ''calculate_bts_total''), issued'))"
      using a by (simp add: check_and_replace_no_orders split: prod.splits sum.splits)
  qed
  from bm[of issued] b c d e f g show ?thesis by blast
qed

text \<open>
  The example with no open order. With a debt position in another asset only, the call
  places both sides and then borrows 165 USD at the ratio 2.5. With no debt position at
  all it places both sides and then raises \<^verbatim>\<open>KeyError\<close>, nothing borrowed.
\<close>

theorem borrow_follows_order_handling_witness:
  "check_and_replace
     (ex_bot\<lparr>open_orders := [(''USD:BTS'', [])],
        debt_positions :=
          [(''CNY'', \<lparr>debt = 10, collateral = 100, collateral_asset = ''BTS''\<rparr>)]\<rparr>)
     ''USD:BTS'' [] =
     (Inr False, [Sell ''USD:BTS'' (7573436092121087 / 70368744177664) (800 / 819),
                  Buy ''USD:BTS'' (819 / 8) (800 / 819)] @
                 [Borrow 165 ''USD'' (5 / 2)]) \<and>
   check_and_replace (ex_bot\<lparr>open_orders := [(''USD:BTS'', [])], debt_positions := []\<rparr>)
     ''USD:BTS'' [] =
     (Inl (KeyError ''calculate_bts_total''),
      [Sell ''USD:BTS'' (7573436092121087 / 70368744177664) (800 / 819),
       Buy ''USD:BTS'' (819 / 8) (800 / 819)])"
proof -
  define dp where
    "dp = [(''CNY'', \<lparr>debt = (10::real), collateral = (100::real), collateral_asset = ''BTS''\<rparr>)]"
  define placed where
    "placed = [Sell ''USD:BTS'' (7573436092121087 / 70368744177664) (800 / 819),
               Buy ''USD:BTS'' (819 / 8) (800 / 819)]"
  have nd: "map_of (debt_positions (ex_bot\<lparr>open_orders := [(''USD:BTS'', [])],
      debt_positions := dp\<rparr>)) ''USD'' = None"
    "map_of (debt_positions (ex_bot\<lparr>open_orders := [(''USD:BTS'', [])],
      debt_positions := []\<rparr>)) ''USD'' = None"
    by (simp_all add: dp_def)
  have da: "get_debt_amounts (ex_bot\<lparr>open_orders := [(''USD:BTS'', [])], debt_positions := dp\<rparr>) =
      Inr [(''USD'', 165)]"
    by (simp add: dp_def ex_get_debt_amounts_other)
  have oo: "map_of (open_orders (ex_bot\<lparr>open_orders := [(''USD:BTS'', [])],
      debt_positions := d\<rparr>)) ''USD:BTS'' = Some []" for d
    by simp
  have em: "debt_positions (ex_bot\<lparr>open_orders := [(''USD:BTS'', [])],
      debt_positions := []\<rparr>) = []"
    "calculate_bts_total (settings (ex_bot\<lparr>open_orders := [(''USD:BTS'', [])],
      debt_positions := []\<rparr>)) = None"
    by (simp_all add: ex_bot_def ex_settings_def)
  have po: "place_orders (ex_bot\<lparr>open_orders := [(''USD:BTS'', [])], debt_positions := d\<rparr>)
      ''USD:BTS'' False False [] = (Inr (), placed)" for d
    unfolding placed_def using ex_place_orders_at(1)[where oo = "[(''USD:BTS'', [])]" and dp = d and issued = "[]"]
    by simp
  have ra: "ratio (settings ex_bot) = Some (5 / 2)"
    and cb: "calculate_bts_total (settings ex_bot) = None"
    by (simp_all add: ex_bot_def ex_settings_def)
  note t = borrow_follows_order_handling[OF ex_split_market_dex nd(1)]
  note t' = borrow_follows_order_handling[OF ex_split_market_dex nd(2), of "[]"]
  have 1: "check_and_replace (ex_bot\<lparr>open_orders := [(''USD:BTS'', [])],
      debt_positions := dp\<rparr>) ''USD:BTS'' [] = (Inr False, placed @ [Borrow 165 ''USD'' (5 / 2)])"
    using t[of "[]"] t[of placed] oo[of dp] da ra
    by (simp add: po ex_fails)
  have 2: "check_and_replace (ex_bot\<lparr>open_orders := [(''USD:BTS'', [])],
      debt_positions := []\<rparr>) ''USD:BTS'' [] = (Inl (KeyError ''calculate_bts_total''), placed)"
  proof -
    from t' have "debt_positions (ex_bot\<lparr>open_orders := [(''USD:BTS'', [])],
          debt_positions := []\<rparr>) = [] \<and>
        calculate_bts_total (settings (ex_bot\<lparr>open_orders := [(''USD:BTS'', [])],
          debt_positions := []\<rparr>)) = None \<and>
        map_of (open_orders (ex_bot\<lparr>open_orders := [(''USD:BTS'', [])],
          debt_positions := []\<rparr>)) ''USD:BTS'' = Some [] \<longrightarrow>
        check_and_replace (ex_bot\<lparr>open_orders := [(''USD:BTS'', [])],
          debt_positions := []\<rparr>) ''USD:BTS'' [] =
         (case place_orders (ex_bot\<lparr>open_orders := [(''USD:BTS'', [])],
                 debt_positions := []\<rparr>) ''USD:BTS'' False False [] of
            (Inl e, issued') \<Rightarrow> (Inl e, issued')
          | (Inr u, issued') \<Rightarrow> (Inl (KeyError ''calculate_bts_total''), issued'))"
      by blast
    with em oo[of "[]"] show ?thesis by (simp add: po)
  qed
  from 1 2 show ?thesis unfolding dp_def placed_def by simp
qed

subsection \<open>A market with no order, or with one\<close>

lemma check_and_replace_band:
  assumes "map_of (open_orders self) market = Some orders"
    and "map_of (ticker self) market = Some t" "settlement_price t = Some feed" "feed \<noteq> 0"
    and "allowed_spread_percentage (settings self) = Some allowed"
    and "spread_percentage (settings self) = Some spread"
  shows "check_and_replace self market issued =
     (case place_missing self market orders issued of
        (Inl e, issued') \<Rightarrow> (Inl e, issued')
      | (Inr u, issued') \<Rightarrow>
          if \<exists>ord \<in> set orders. out_of_band allowed spread feed ord
          then replace_orders self market issued'
          else borrow_missing self market issued')"
proof -
  note loop = orders_loop_cases[OF assms(2-6)]
  obtain r1 i1 where pm: "place_missing self market orders issued = (r1, i1)"
    by (cases "place_missing self market orders issued") auto
  show ?thesis
  proof (cases r1)
    case (Inl e)
    then show ?thesis using pm by (simp add: check_and_replace_cases assms(1))
  next
    case (Inr u)
    show ?thesis
    proof (cases "\<exists>ord \<in> set orders. out_of_band allowed spread feed ord")
      case True
      obtain r l where rl: "replace_orders self market i1 = (r, l)"
        by (cases "replace_orders self market i1") auto
      have "r \<noteq> Inr False" using replace_orders_result[of self market i1] rl by simp
      then have "r = Inr True \<or> (\<exists>e. r = Inl e)" by (cases r) auto
      then show ?thesis using True rl pm Inr
        by (auto simp: check_and_replace_cases assms(1) loop)
    next
      case False
      then show ?thesis using pm Inr by (simp add: check_and_replace_cases assms(1) loop)
    qed
  qed
qed

lemma adds_only_buy:
  assumes "market \<noteq> ''all''"
  shows "adds is_buy (place_orders self market False True)"
proof (rule adds_mono[OF adds_place_orders])
  fix c
  assume "placed_ok self (\<lambda>m. market \<noteq> ''all'' \<longrightarrow> m = market)
            (False \<and> market \<noteq> ''all'') (True \<and> market \<noteq> ''all'') c"
  then show "is_buy c" using assms by (cases c) (simp_all add: placed_ok_def)
qed

lemma adds_only_sell:
  assumes "market \<noteq> ''all''"
  shows "adds is_sell (place_orders self market True False)"
proof (rule adds_mono[OF adds_place_orders])
  fix c
  assume "placed_ok self (\<lambda>m. market \<noteq> ''all'' \<longrightarrow> m = market)
            (True \<and> market \<noteq> ''all'') (False \<and> market \<noteq> ''all'') c"
  then show "is_sell c" using assms by (cases c) (simp_all add: placed_ok_def)
qed

lemma adds_place_then_borrow:
  assumes "adds P (place_orders self market only_sell only_buy)"
  shows "list_all (\<lambda>c. P c \<or> is_borrow c)
     (drop (length issued)
        (snd (case place_orders self market only_sell only_buy issued of
                (Inl e, issued') \<Rightarrow> (Inl e, issued')
              | (Inr u, issued') \<Rightarrow> borrow_missing self market issued')))"
proof -
  have "adds (\<lambda>c. P c \<or> is_borrow c) (place_orders self market only_sell only_buy)"
    by (rule adds_mono[OF assms]) simp
  moreover have "adds (\<lambda>c. P c \<or> is_borrow c) (borrow_missing self market)"
    by (rule adds_mono[OF adds_borrow_missing]) simp
  ultimately have "adds (\<lambda>c. P c \<or> is_borrow c)
     (\<lambda>issued. case place_orders self market only_sell only_buy issued of
                (Inl e, issued') \<Rightarrow> (Inl e, issued')
              | (Inr (u::unit), issued') \<Rightarrow> (borrow_missing self market issued'))"
    by (rule adds_then)
  from addsD[OF this, of issued] show ?thesis by auto
qed

text \<open>
  What \<^verbatim>\<open>check_and_replace\<close> does for a market (not named \<^verbatim>\<open>all\<close>) with no open
  order or with one, given a feed price other than zero and the two spreads. With no open
  order it calls \<^verbatim>\<open>place_orders\<close> for both sides. With one open order it calls
  \<^verbatim>\<open>place_orders\<close> for the missing side only and then tests the order against the band
  as it does for two orders: out of the band, the order is cancelled and both sides are
  placed; within the band nothing is cancelled, and no order of the side that exists is
  placed.
\<close>

lemma one_sided_orders_missing_side:
  assumes "map_of (open_orders self) market = Some orders" and "market \<noteq> ''all''"
    and "map_of (ticker self) market = Some t" "settlement_price t = Some feed" "feed \<noteq> 0"
    and "allowed_spread_percentage (settings self) = Some allowed"
    and "spread_percentage (settings self) = Some spread"
  shows
   "(orders = [] \<longrightarrow>
       check_and_replace self market issued =
         (case place_orders self market False False issued of
            (Inl e, issued') \<Rightarrow> (Inl e, issued')
          | (Inr u, issued') \<Rightarrow> borrow_missing self market issued')) \<and>
    (\<forall>ord. orders = [ord] \<and> order_type ord = ''sell'' \<longrightarrow>
       check_and_replace self market issued =
         (case place_orders self market False True issued of
            (Inl e, issued') \<Rightarrow> (Inl e, issued')
          | (Inr u, issued') \<Rightarrow>
              if out_of_band allowed spread feed ord
              then (case place_orders self market False False
                           (issued' @ [Cancel (orderNumber ord)]) of
                      (Inl e, issued'') \<Rightarrow> (Inl e, issued'')
                    | (Inr u, issued'') \<Rightarrow> (Inr True, issued''))
              else borrow_missing self market issued')) \<and>
    (\<forall>ord. orders = [ord] \<and> order_type ord = ''buy'' \<longrightarrow>
       check_and_replace self market issued =
         (case place_orders self market True False issued of
            (Inl e, issued') \<Rightarrow> (Inl e, issued')
          | (Inr u, issued') \<Rightarrow>
              if out_of_band allowed spread feed ord
              then (case place_orders self market False False
                           (issued' @ [Cancel (orderNumber ord)]) of
                      (Inl e, issued'') \<Rightarrow> (Inl e, issued'')
                    | (Inr u, issued'') \<Rightarrow> (Inr True, issued''))
              else borrow_missing self market issued')) \<and>
    (\<forall>ord. orders = [ord] \<and> order_type ord = ''sell'' \<and>
           \<not> out_of_band allowed spread feed ord \<longrightarrow>
       list_all (\<lambda>c. is_buy c \<or> is_borrow c)
         (drop (length issued) (snd (check_and_replace self market issued)))) \<and>
    (\<forall>ord. orders = [ord] \<and> order_type ord = ''buy'' \<and>
           \<not> out_of_band allowed spread feed ord \<longrightarrow>
       list_all (\<lambda>c. is_sell c \<or> is_borrow c)
         (drop (length issued) (snd (check_and_replace self market issued))))"
proof -
  note band = check_and_replace_band[OF assms(1) assms(3-7)]
  note rep = replace_orders_market[OF assms(1,2)]
  have a: "orders = [] \<longrightarrow>
       check_and_replace self market issued =
         (case place_orders self market False False issued of
            (Inl e, issued') \<Rightarrow> (Inl e, issued')
          | (Inr u, issued') \<Rightarrow> borrow_missing self market issued')"
    using assms(1) by (auto simp: check_and_replace_no_orders)
  have b: "\<forall>ord. orders = [ord] \<and> order_type ord = ''sell'' \<longrightarrow>
       check_and_replace self market issued =
         (case place_orders self market False True issued of
            (Inl e, issued') \<Rightarrow> (Inl e, issued')
          | (Inr u, issued') \<Rightarrow>
              if out_of_band allowed spread feed ord
              then (case place_orders self market False False
                           (issued' @ [Cancel (orderNumber ord)]) of
                      (Inl e, issued'') \<Rightarrow> (Inl e, issued'')
                    | (Inr u, issued'') \<Rightarrow> (Inr True, issued''))
              else borrow_missing self market issued')"
    by (auto simp: band rep place_missing_cases split: prod.splits sum.splits)
  have c: "\<forall>ord. orders = [ord] \<and> order_type ord = ''buy'' \<longrightarrow>
       check_and_replace self market issued =
         (case place_orders self market True False issued of
            (Inl e, issued') \<Rightarrow> (Inl e, issued')
          | (Inr u, issued') \<Rightarrow>
              if out_of_band allowed spread feed ord
              then (case place_orders self market False False
                           (issued' @ [Cancel (orderNumber ord)]) of
                      (Inl e, issued'') \<Rightarrow> (Inl e, issued'')
                    | (Inr u, issued'') \<Rightarrow> (Inr True, issued''))
              else borrow_missing self market issued')"
    by (auto simp: band rep place_missing_cases split: prod.splits sum.splits)
  have d: "\<forall>ord. orders = [ord] \<and> order_type ord = ''sell'' \<and>
           \<not> out_of_band allowed spread feed ord \<longrightarrow>
       list_all (\<lambda>c. is_buy c \<or> is_borrow c)
         (drop (length issued) (snd (check_and_replace self market issued)))"
  proof (intro allI impI)
    fix ord
    assume h: "orders = [ord] \<and> order_type ord = ''sell'' \<and>
           \<not> out_of_band allowed spread feed ord"
    then have "check_and_replace self market issued =
         (case place_orders self market False True issued of
            (Inl e, issued') \<Rightarrow> (Inl e, issued')
          | (Inr u, issued') \<Rightarrow> borrow_missing self market issued')"
      using b by (auto split: prod.splits sum.splits)
    then show "list_all (\<lambda>c. is_buy c \<or> is_borrow c)
         (drop (length issued) (snd (check_and_replace self market issued)))"
      using adds_place_then_borrow[OF adds_only_buy[OF assms(2)], where issued = issued] by simp
  qed
  have e: "\<forall>ord. orders = [ord] \<and> order_type ord = ''buy'' \<and>
           \<not> out_of_band allowed spread feed ord \<longrightarrow>
       list_all (\<lambda>c. is_sell c \<or> is_borrow c)
         (drop (length issued) (snd (check_and_replace self market issued)))"
  proof (intro allI impI)
    fix ord
    assume h: "orders = [ord] \<and> order_type ord = ''buy'' \<and>
           \<not> out_of_band allowed spread feed ord"
    then have "check_and_replace self market issued =
         (case place_orders self market True False issued of
            (Inl e, issued') \<Rightarrow> (Inl e, issued')
          | (Inr u, issued') \<Rightarrow> borrow_missing self market issued')"
      using c by (auto split: prod.splits sum.splits)
    then show "list_all (\<lambda>c. is_sell c \<or> is_borrow c)
         (drop (length issued) (snd (check_and_replace self market issued)))"
      using adds_place_then_borrow[OF adds_only_sell[OF assms(2)], where issued = issued] by simp
  qed
  from a b c d e show ?thesis by blast
qed

text \<open>
  C6. The claim holds for a market with no open order (both sides are placed) and for a
  market with one open order that lies within the band (the missing side only is placed,
  nothing is cancelled). It fails for one open order out of the band: the loop of lines
  142-148 runs over the single order too. In the docstring's configuration with one open
  order, a sell 4 percent away from a feed of 2 (the band is 1.25 to 3.75),
  \<^verbatim>\<open>check_and_replace\<close> places the buy side, cancels the existing sell order, places
  both sides again and returns \<^verbatim>\<open>True\<close>: the order is cancelled and replaced, and the
  buy order just placed, which is not in the snapshot and so not cancelled, stands beside
  a second one. The settings \<^verbatim>\<open>only_buy\<close> and \<^verbatim>\<open>only_sell\<close> of the docstring are not
  read anywhere in the source, which is why the record of settings has no field for
  them: the only suppression of a side is the one \<^verbatim>\<open>check_and_replace\<close> asks for.
\<close>

theorem one_sided_order_replaced:
  "check_and_replace
     (ex_bot\<lparr>open_orders := [(''USD:BTS'',
         [\<lparr>orderNumber = ''1.7.3'', order_type = ''sell'', rate = 52 / 25, order_total = 1\<rparr>])],
        debt_positions :=
          [(''USD'', \<lparr>debt = 100, collateral = 500, collateral_asset = ''BTS''\<rparr>)]\<rparr>)
     ''USD:BTS'' [] =
     (Inr True, [Buy ''USD:BTS'' (819 / 8) (800 / 819), Cancel ''1.7.3'',
                 Sell ''USD:BTS'' (7573436092121087 / 70368744177664) (800 / 819),
                 Buy ''USD:BTS'' (819 / 8) (800 / 819)]) \<and>
   check_and_replace
     (ex_bot\<lparr>open_orders := [(''USD:BTS'', [])],
        debt_positions :=
          [(''USD'', \<lparr>debt = 100, collateral = 500, collateral_asset = ''BTS''\<rparr>)]\<rparr>)
     ''USD:BTS'' [] =
     (Inr False, [Sell ''USD:BTS'' (7573436092121087 / 70368744177664) (800 / 819),
                  Buy ''USD:BTS'' (819 / 8) (800 / 819)]) \<and>
   check_and_replace
     (ex_bot\<lparr>open_orders := [(''USD:BTS'',
         [\<lparr>orderNumber = ''1.7.1'', order_type = ''sell'', rate = 51 / 25, order_total = 1\<rparr>])],
        debt_positions :=
          [(''USD'', \<lparr>debt = 100, collateral = 500, collateral_asset = ''BTS''\<rparr>)]\<rparr>)
     ''USD:BTS'' [] = (Inr False, [Buy ''USD:BTS'' (819 / 8) (800 / 819)]) \<and>
   check_and_replace
     (ex_bot\<lparr>open_orders := [(''USD:BTS'',
         [\<lparr>orderNumber = ''1.7.4'', order_type = ''buy'', rate = 49 / 25, order_total = 1\<rparr>])],
        debt_positions :=
          [(''USD'', \<lparr>debt = 100, collateral = 500, collateral_asset = ''BTS''\<rparr>)]\<rparr>)
     ''USD:BTS'' [] =
     (Inr False, [Sell ''USD:BTS'' (7573436092121087 / 70368744177664) 5])"
proof -
  define o1 where "o1 = \<lparr>orderNumber = ''1.7.1'', order_type = ''sell'', rate = 51 / 25,
    order_total = (1::real)\<rparr>"
  define o3 where "o3 = \<lparr>orderNumber = ''1.7.3'', order_type = ''sell'', rate = 52 / 25,
    order_total = (1::real)\<rparr>"
  define o4 where "o4 = \<lparr>orderNumber = ''1.7.4'', order_type = ''buy'', rate = 49 / 25,
    order_total = (1::real)\<rparr>"
  define dp where
    "dp = [(''USD'', \<lparr>debt = (100::real), collateral = (500::real), collateral_asset = ''BTS''\<rparr>)]"
  have band: "\<not> out_of_band (5 / 2) 5 2 o1" "out_of_band (5 / 2) 5 2 o3"
    "\<not> out_of_band (5 / 2) 5 2 o4"
    by (simp_all add: out_of_band_def order_feed_spread_def o1_def o3_def o4_def)
  have ty: "order_type o1 = ''sell''" "order_type o3 = ''sell''" "order_type o4 = ''buy''"
    "orderNumber o3 = ''1.7.3''"
    by (simp_all add: o1_def o3_def o4_def)
  have m: "''USD:BTS'' \<noteq> ''all''" by simp
  have s: "settlement_price \<lparr>settlement_price = Some (2::real)\<rparr> = Some 2" "(2::real) \<noteq> 0"
    by simp_all
  have oo: "map_of (open_orders (ex_bot\<lparr>open_orders := [(''USD:BTS'', ords)],
      debt_positions := dp\<rparr>)) ''USD:BTS'' = Some ords" for ords
    by simp
  note t = one_sided_orders_missing_side[OF oo m ex_bot_fields(1) s ex_bot_fields(2,3),
      where issued = "[]"]
  have bm: "borrow_missing (ex_bot\<lparr>open_orders := oo', debt_positions := dp\<rparr>) ''USD:BTS'' i =
      (Inr False, i)" for oo' i
    unfolding dp_def by (rule ex_borrow_missing_held)
  have a: "check_and_replace (ex_bot\<lparr>open_orders := [(''USD:BTS'', [o3])], debt_positions := dp\<rparr>)
      ''USD:BTS'' [] =
     (Inr True, [Buy ''USD:BTS'' (819 / 8) (800 / 819), Cancel ''1.7.3'',
                 Sell ''USD:BTS'' (7573436092121087 / 70368744177664) (800 / 819),
                 Buy ''USD:BTS'' (819 / 8) (800 / 819)])"
    using t[of "[o3]"] band ty by (simp add: ex_place_orders_at)
  have b: "check_and_replace (ex_bot\<lparr>open_orders := [(''USD:BTS'', [])], debt_positions := dp\<rparr>)
      ''USD:BTS'' [] =
     (Inr False, [Sell ''USD:BTS'' (7573436092121087 / 70368744177664) (800 / 819),
                  Buy ''USD:BTS'' (819 / 8) (800 / 819)])"
    using t[of "[]"] by (simp add: ex_place_orders_at bm)
  have c: "check_and_replace (ex_bot\<lparr>open_orders := [(''USD:BTS'', [o1])], debt_positions := dp\<rparr>)
      ''USD:BTS'' [] = (Inr False, [Buy ''USD:BTS'' (819 / 8) (800 / 819)])"
    using t[of "[o1]"] band ty by (simp add: ex_place_orders_at bm)
  have d: "check_and_replace (ex_bot\<lparr>open_orders := [(''USD:BTS'', [o4])], debt_positions := dp\<rparr>)
      ''USD:BTS'' [] = (Inr False, [Sell ''USD:BTS'' (7573436092121087 / 70368744177664) 5])"
    using t[of "[o4]"] band ty by (simp add: ex_place_orders_at bm)
  from a b c d show ?thesis unfolding o1_def o3_def o4_def dp_def by simp
qed

subsection \<open>The scheduler\<close>

lemma update_data_keeps [simp]:
  "block_counter (update_data self issued) = block_counter self"
  "settings (update_data self issued) = settings self"
  "dex (update_data self issued) = dex self"
  by (simp_all add: update_data_def)


















end
